theory Spec2Isabelle
  imports Complex_Main "HOL-Library.List_Lexorder" "HOL-Library.Char_ord"
    "HOL-Library.Product_Lexorder"
begin

section \<open>Data model\<close>

text \<open>
  The dashboards work on one in-memory table of queue tickets. A timestamp is the number
  of seconds since the epoch; \<open>.dt.date\<close> is the day number and \<open>.dt.hour\<close> the hour of
  the day, which is always one of 0..23.
\<close>

type_synonym timestamp = int

definition date_of :: "timestamp \<Rightarrow> int" where
  "date_of t = t div 86400"

definition hour_of :: "timestamp \<Rightarrow> int" where
  "hour_of t = (t mod 86400) div 3600"

text \<open>
  A row of \<open>base.xlsx\<close> once its columns carry the canonical names. Every cell may be
  missing (\<open>NaN\<close>, \<open>None\<close>). The three date columns are polymorphic: \<open>celula\<close> as read
  from the spreadsheet, \<open>timestamp option\<close> after \<open>pd.to_datetime\<close> (\<open>None\<close> is
  \<open>NaT\<close>), and \<open>timestamp\<close> for a row whose dates are all present. The durations
  \<open>tpatend\<close> and \<open>tpesper\<close> are numbers of seconds.
\<close>

record 'ts registro =
  id_col :: "nat option"
  status :: "string option"
  guiche :: "string option"
  usuario :: "string option"
  retirada :: 'ts
  inicio :: 'ts
  fim :: 'ts
  tpatend :: "real option"
  tpesper :: "real option"
  prefixo :: "string option"

text \<open>
  A cell of a date column as read from the spreadsheet: a datetime, text, or blank.
\<close>

datatype celula = Data timestamp | Texto string | Vazio

text \<open>The exceptions the modelled code raises.\<close>

datatype erro = ValueError | AttributeError | KeyError | OverflowError



definition isin :: "'a option \<Rightarrow> 'a list \<Rightarrow> bool" where
  "isin x vs = (case x of None \<Rightarrow> False | Some v \<Rightarrow> v \<in> set vs)"

definition eq_col :: "'a option \<Rightarrow> 'a \<Rightarrow> bool" where
  "eq_col x v = (case x of None \<Rightarrow> False | Some w \<Rightarrow> w = v)"

section \<open>processamento/carregar\_dados: validar\_dados\<close>






section \<open>Shift of a ticket\<close>



text \<open>\<open>get_turno\<close>, local to \<open>calcular_ociosidade_por_periodo\<close> (ociosidade).\<close>

definition get_turno :: "int \<Rightarrow> string" where
  "get_turno hour =
     (if 7 \<le> hour \<and> hour < 15 then ''TURNO A''
      else if 15 \<le> hour \<and> hour < 23 then ''TURNO B''
      else ''TURNO C'')"



section \<open>processamento/carregar\_dados: validar\_colunas\<close>

text \<open>
  A Python \<open>str\<close> is a list of Unicode code points. A column label of the spreadsheet
  is a \<open>str\<close> or something else (a number, a date), on which \<open>.lower()\<close> raises
  \<open>AttributeError\<close>.
\<close>

type_synonym pystr = "nat list"

datatype rotulo = Rotulo pystr | Outro

definition cp :: "string \<Rightarrow> pystr" where
  "cp s = map of_char s"

text \<open>
  \<open>str.lower\<close>. On a string of Latin-1 code points it maps \<open>A..Z\<close> and the accented
  capitals \<open>U+00C0..U+00DE\<close> (except the sign \<open>U+00D7\<close>) to the code point 32 above and
  keeps every other one. On any other string it is Python's function, taken as the
  parameter \<open>lo\<close>.
\<close>

definition lower_latin1 :: "nat \<Rightarrow> nat" where
  "lower_latin1 c =
     (if (65 \<le> c \<and> c \<le> 90) \<or> (192 \<le> c \<and> c \<le> 222 \<and> c \<noteq> 215) then c + 32 else c)"

definition lower :: "(pystr \<Rightarrow> pystr) \<Rightarrow> pystr \<Rightarrow> pystr" where
  "lower lo s = (if list_all (\<lambda>c. c < 256) s then map lower_latin1 s else lo s)"

text \<open>\<open>str.strip\<close> removes the white space of both ends; these are Python's white-space
  code points.\<close>

definition is_space :: "nat \<Rightarrow> bool" where
  "is_space c \<longleftrightarrow>
     c \<in> set [9, 10, 11, 12, 13, 28, 29, 30, 31, 32, 133, 160, 5760,
               8192, 8193, 8194, 8195, 8196, 8197, 8198, 8199, 8200, 8201, 8202,
               8232, 8233, 8239, 8287, 12288]"

definition strip :: "pystr \<Rightarrow> pystr" where
  "strip s = rev (dropWhile is_space (rev (dropWhile is_space s)))"

text \<open>The dictionary \<open>mapa_colunas\<close>, in insertion order.\<close>

definition mapa_colunas :: "(pystr \<times> pystr) list" where
  "mapa_colunas =
     [(cp ''status_descricao'', cp ''status''),
      (cp ''status descri'' @ [231, 227] @ cp ''o'', cp ''status''),
      (cp ''Status Descri'' @ [231, 227] @ cp ''o'', cp ''status''),
      (cp ''Status'', cp ''status''),
      (cp ''STATUS'', cp ''status''),
      (cp ''guiche'', cp ''guich'' @ [234]),
      (cp ''guich'' @ [234], cp ''guich'' @ [234]),
      (cp ''Guich'' @ [234], cp ''guich'' @ [234]),
      (cp ''Guiche'', cp ''guich'' @ [234]),
      (cp ''GUICHE'', cp ''guich'' @ [234]),
      (cp ''usuario'', cp ''usu'' @ [225] @ cp ''rio''),
      (cp ''usu'' @ [225] @ cp ''rio'', cp ''usu'' @ [225] @ cp ''rio''),
      (cp ''Usu'' @ [225] @ cp ''rio'', cp ''usu'' @ [225] @ cp ''rio''),
      (cp ''Usuario'', cp ''usu'' @ [225] @ cp ''rio''),
      (cp ''USUARIO'', cp ''usu'' @ [225] @ cp ''rio''),
      (cp ''retirada'', cp ''retirada''),
      (cp ''inicio'', cp ''inicio''),
      (cp ''fim'', cp ''fim''),
      (cp ''tpatend'', cp ''tpatend''),
      (cp ''tpesper'', cp ''tpesper'')]"

text \<open>
  The inner loop for one column: the value of the first key whose lower-cased form is
  the lower-cased, stripped column name, if there is one.
\<close>

definition padronizado :: "(pystr \<Rightarrow> pystr) \<Rightarrow> pystr \<Rightarrow> pystr option" where
  "padronizado lo col_atual =
     (let col_lower = strip (lower lo col_atual)
      in map_option snd (find (\<lambda>(key, value). col_lower = lower lo key) mapa_colunas))"

text \<open>\<open>df.rename(columns={col_atual: value})\<close> on the labels of the current table.\<close>

definition rename :: "rotulo list \<Rightarrow> pystr \<Rightarrow> pystr \<Rightarrow> rotulo list" where
  "rename cols col_atual value = map (\<lambda>c. if c = Rotulo col_atual then Rotulo value else c) cols"

text \<open>
  The outer loop runs over the labels the table had on entry, while the renaming acts on
  the current table.
\<close>

fun renomear :: "(pystr \<Rightarrow> pystr) \<Rightarrow> rotulo list \<Rightarrow> rotulo list \<Rightarrow> erro + rotulo list" where
  "renomear lo [] cols = Inr cols"
| "renomear lo (Outro # resto) cols = Inl AttributeError"
| "renomear lo (Rotulo col_atual # resto) cols =
     (case padronizado lo col_atual of
        None \<Rightarrow> renomear lo resto cols
      | Some value \<Rightarrow> renomear lo resto (rename cols col_atual value))"

definition colunas_obrigatorias :: "pystr list" where
  "colunas_obrigatorias =
     [cp ''status'', cp ''guich'' @ [234], cp ''usu'' @ [225] @ cp ''rio'',
      cp ''retirada'', cp ''inicio'', cp ''fim'',
      cp ''tpatend'', cp ''tpesper'', cp ''prefixo'']"

text \<open>
  \<open>validar_colunas\<close> on the labels of the table: the renamed labels, or the exception
  raised.
\<close>

definition validar_colunas :: "(pystr \<Rightarrow> pystr) \<Rightarrow> rotulo list \<Rightarrow> erro + rotulo list" where
  "validar_colunas lo colunas =
     (case renomear lo colunas colunas of
        Inl e \<Rightarrow> Inl e
      | Inr cols \<Rightarrow>
          (let colunas_faltantes = filter (\<lambda>col. Rotulo col \<notin> set cols) colunas_obrigatorias
           in if colunas_faltantes \<noteq> [] then Inl ValueError else Inr cols))"

text \<open>The name a text label ends with: the value of its alias, or the label itself.\<close>

definition padrao :: "(pystr \<Rightarrow> pystr) \<Rightarrow> pystr \<Rightarrow> pystr" where
  "padrao lo s = (case padronizado lo s of None \<Rightarrow> s | Some value \<Rightarrow> value)"

section \<open>Floating-point results and data-frame primitives\<close>

text \<open>
  A float column holds a finite number, an infinity or NaN. Finite arithmetic is done in
  the reals (rounding is not modelled); what is modelled is where pandas produces
  \<open>inf\<close> and \<open>NaN\<close> instead of raising.
\<close>

datatype pyfloat = Num real | PosInf | NegInf | NaN

text \<open>Division of two finite column entries: \<open>x / 0\<close> is \<open>\<plusminus>inf\<close>, \<open>0 / 0\<close> is NaN.\<close>

definition fdiv :: "real \<Rightarrow> real \<Rightarrow> pyfloat" where
  "fdiv a b =
     (if b = 0 then (if a = 0 then NaN else if a > 0 then PosInf else NegInf)
      else Num (a / b))"

text \<open>Multiplication of a column entry by a finite scalar.\<close>

fun fmul :: "pyfloat \<Rightarrow> real \<Rightarrow> pyfloat" where
  "fmul (Num a) c = Num (a * c)"
| "fmul PosInf c = (if c > 0 then PosInf else if c < 0 then NegInf else NaN)"
| "fmul NegInf c = (if c > 0 then NegInf else if c < 0 then PosInf else NaN)"
| "fmul NaN c = NaN"

text \<open>\<open>.fillna(0)\<close> and \<open>.replace([float('inf')], 100)\<close> on a float column entry.\<close>

fun fillna0 :: "pyfloat \<Rightarrow> pyfloat" where
  "fillna0 NaN = Num 0"
| "fillna0 x = x"


text \<open>
  \<open>df.groupby(key)\<close>: one group per key value that occurs, rows with a missing key
  dropped, groups in ascending key order, the rows of a group in table order.
\<close>

definition groupby :: "('r \<Rightarrow> 'k::linorder option) \<Rightarrow> 'r list \<Rightarrow> ('k \<times> 'r list) list" where
  "groupby key df =
     map (\<lambda>k. (k, filter (\<lambda>r. key r = Some k) df)) (sort (remdups (List.map_filter key df)))"

text \<open>
  \<open>groupby(key)[col].count()\<close>: the number of non-missing entries of the column in
  each group, which is 0 for a group whose entries are all missing.
\<close>

definition groupby_count :: "('r \<Rightarrow> 'k::linorder option) \<Rightarrow> ('r \<Rightarrow> 'v option) \<Rightarrow> 'r list \<Rightarrow> ('k \<times> nat) list" where
  "groupby_count key col df =
     map (\<lambda>(k, g). (k, length (filter (\<lambda>r. col r \<noteq> None) g))) (groupby key df)"

text \<open>\<open>groupby(key)[col].nunique()\<close>: the distinct non-missing entries of each group.\<close>

definition groupby_nunique :: "('r \<Rightarrow> 'k::linorder option) \<Rightarrow> ('r \<Rightarrow> 'v option) \<Rightarrow> 'r list \<Rightarrow> ('k \<times> nat) list" where
  "groupby_nunique key col df =
     map (\<lambda>(k, g). (k, length (remdups (List.map_filter col g)))) (groupby key df)"

text \<open>\<open>pd.merge(left, right, on=key)\<close>, the default inner join of two keyed tables.\<close>

definition merge_inner :: "('k \<times> 'a) list \<Rightarrow> ('k \<times> 'b) list \<Rightarrow> ('k \<times> 'a \<times> 'b) list" where
  "merge_inner left right =
     concat (map (\<lambda>(k, a). map (\<lambda>(k', b). (k, a, b)) (filter (\<lambda>(k', b). k' = k) right)) left)"





text \<open>
  What a function hands on when it may return \<open>pd.DataFrame()\<close>: that empty frame,
  which has no columns at all, or a table with its columns and its rows. Merging the
  former on a column raises \<open>KeyError\<close>.
\<close>

datatype 'r frame = DataFrame_vazio | Linhas "'r list"

text \<open>The rows \<open>df_comp\<close> of a period comparison, with its derived columns.\<close>

record ('k, 'v) comparativo =
  chave :: 'k
  valor_p1 :: 'v
  valor_p2 :: 'v
  total :: 'v
  variacao :: pyfloat

section \<open>The loaded table and the dashboard filters\<close>

text \<open>
  A row of \<open>dados['base']\<close>: a validated row with the client and operation codes
  attached by the join (missing when the prefix has no code) and the derived
  \<open>tempo_permanencia\<close>.
\<close>

record 'ts registro_final = "'ts registro" +
  CLIENTE :: "string option"
  OPERACAO :: "string option"
  tempo_permanencia :: "real option"

text \<open>
  The table \<open>dados['base']\<close>. The column \<open>id\<close> is not among the columns the loader
  requires, so a loaded table may lack it: \<open>tem_id\<close> tells whether it is there, and
  the \<open>id_col\<close> of the rows is read only when it is.
\<close>

record tabela_base =
  tem_id :: bool
  linhas :: "timestamp option registro_final list"

text \<open>The dictionary \<open>dados\<close> returned by the loader.\<close>

record ('m, 'c) dados =
  base :: tabela_base
  medias :: 'm
  codigo :: 'c

text \<open>
  The \<open>filtros\<close> dictionary. A period is its first and last day; \<open>filtros[periodo]\<close>
  is selected by the key \<open>'periodo1'\<close> or \<open>'periodo2'\<close>. The keys \<open>colaborador\<close> and
  \<open>data_especifica\<close> may be absent.
\<close>

type_synonym periodo = "int \<times> int"

datatype nome_periodo = Periodo1 | Periodo2

record filtros =
  periodo1 :: periodo
  periodo2 :: periodo
  cliente :: "string list"
  operacao :: "string list"
  turno :: "string list"
  colaborador :: "string option"
  data_especifica :: "int option"

definition filtros_periodo :: "filtros \<Rightarrow> nome_periodo \<Rightarrow> periodo" where
  "filtros_periodo f p = (case p of Periodo1 \<Rightarrow> periodo1 f | Periodo2 \<Rightarrow> periodo2 f)"

text \<open>
  The date mask shared by every dashboard:
  \<open>(retirada.dt.date >= inicio) & (retirada.dt.date <= fim)\<close>. A row without
  \<open>retirada\<close> (\<open>NaT\<close>) is in no period.
\<close>

definition no_periodo :: "periodo \<Rightarrow> (timestamp option, 'a) registro_scheme \<Rightarrow> bool" where
  "no_periodo p r =
     (case retirada r of None \<Rightarrow> False
      | Some t \<Rightarrow> date_of t \<ge> fst p \<and> date_of t \<le> snd p)"

section \<open>operacoes\_clientes/mov\_cliente\<close>

text \<open>
  \<open>calcular_movimentacao_por_periodo\<close>: per client of the period, the number of its
  tickets whose \<open>id\<close> is present (\<open>groupby('CLIENTE')['id'].count()\<close>). Selecting the
  column \<open>id\<close> raises \<open>KeyError\<close> when the table has none.
\<close>

definition calcular_movimentacao_por_periodo ::
  "('m, 'c) dados \<Rightarrow> filtros \<Rightarrow> nome_periodo \<Rightarrow> erro + (string \<times> nat) list" where
  "calcular_movimentacao_por_periodo dados f p =
     (let df = base dados;
          df_filtrado = filter (no_periodo (filtros_periodo f p)) (linhas df)
      in if tem_id df then Inr (groupby_count CLIENTE id_col df_filtrado)
         else Inl KeyError)"

text \<open>
  The percentage variation of every comparison chart:
  \<open>(p2 - p1) / p1 * 100\<close> on finite column entries.
\<close>

definition variacao_pct :: "real \<Rightarrow> real \<Rightarrow> pyfloat" where
  "variacao_pct p1 p2 = fmul (fdiv (p2 - p1) p1) 100"

text \<open>
  \<open>criar_grafico_comparativo\<close> (mov\_cliente), up to the table handed to the chart:
  inner merge on the client, \<open>total\<close>, \<open>variacao\<close>, rows by ascending total. The
  quantities are integers and their quotient is a float.
\<close>

definition criar_grafico_comparativo_mov_cliente ::
  "(string \<times> nat) list \<Rightarrow> (string \<times> nat) list \<Rightarrow> (string, nat) comparativo list" where
  "criar_grafico_comparativo_mov_cliente dados_p1 dados_p2 =
     (let df_comp = merge_inner dados_p1 dados_p2;
          df_comp = map (\<lambda>(k, q1, q2).
                      \<lparr>chave = k, valor_p1 = q1, valor_p2 = q2, total = q1 + q2,
                       variacao = variacao_pct (real q1) (real q2)\<rparr>) df_comp
      in sort_key total df_comp)"

section \<open>processamento/carregar\_dados: carregar\_dados\<close>

text \<open>
  An uploaded file: not uploaded, uploaded but rejected by \<open>pd.read_excel\<close>, or read
  as a table.
\<close>

datatype 'a arquivo = Ausente | Ilegivel | Planilha 'a

text \<open>
  The base spreadsheet: its column labels and its rows. The row gives the cells under
  the labels that \<open>validar_colunas\<close> turns into the canonical names.
\<close>

record planilha_base =
  colunas :: "rotulo list"
  linhas_brutas :: "celula registro list"












section \<open>operacoes\_clientes/espera and tempo\_atend\<close>









section \<open>desenvolvimento\_pessoas/ociosidade: calcular\_ociosidade\_por\_periodo\<close>

text \<open>
  \<open>Series.unique()\<close>: the distinct values in order of first appearance, a missing value
  among them. \<open>==\<close> between a cell and a value taken from a column is false when either
  is missing.
\<close>

fun unique :: "'a list \<Rightarrow> 'a list" where
  "unique [] = []"
| "unique (x # xs) = x # filter (\<lambda>y. y \<noteq> x) (unique xs)"

definition eq_opt :: "'a option \<Rightarrow> 'a option \<Rightarrow> bool" where
  "eq_opt x y = (case (x, y) of (Some a, Some b) \<Rightarrow> a = b | _ \<Rightarrow> False)"

text \<open>\<open>groupby(key)[col].mean()\<close> of a column without missing entries.\<close>

definition groupby_mean :: "('r \<Rightarrow> 'k::linorder option) \<Rightarrow> ('r \<Rightarrow> real) \<Rightarrow> 'r list \<Rightarrow> ('k \<times> real) list" where
  "groupby_mean key col df =
     map (\<lambda>(k, g). (k, sum_list (map col g) / real (length g))) (groupby key df)"

text \<open>
  The rows selected by \<open>calcular_ociosidade_por_periodo\<close>: the period (and the day
  \<open>data_especifica\<close> when it is given), the collaborator when one is given that is
  neither empty nor \<open>Todos\<close>, then the client, operation and shift lists unless they are
  the lists that select everything. The shift is \<open>get_turno\<close> of the hour of \<open>retirada\<close>.
\<close>

definition data_retirada :: "(timestamp option, 'a) registro_scheme \<Rightarrow> int option" where
  "data_retirada r = map_option date_of (retirada r)"

definition filtrar_ociosidade ::
  "filtros \<Rightarrow> nome_periodo \<Rightarrow> timestamp option registro_final list
     \<Rightarrow> timestamp option registro_final list" where
  "filtrar_ociosidade f periodo df =
     (let mask = (\<lambda>r. no_periodo (filtros_periodo f periodo) r
                       \<and> (case data_especifica f of
                             None \<Rightarrow> True
                           | Some dia \<Rightarrow> eq_col (data_retirada r) dia));
          df_filtrado = filter mask df;
          df_filtrado =
            (case colaborador f of
               Some c \<Rightarrow> if c \<noteq> [] \<and> c \<noteq> ''Todos''
                         then filter (\<lambda>r. eq_col (usuario r) c) df_filtrado
                         else df_filtrado
             | None \<Rightarrow> df_filtrado);
          df_filtrado =
            (if cliente f \<noteq> [''Todos'']
             then filter (\<lambda>r. isin (CLIENTE r) (cliente f)) df_filtrado else df_filtrado);
          df_filtrado =
            (if operacao f \<noteq> [''Todas'']
             then filter (\<lambda>r. isin (OPERACAO r) (operacao f)) df_filtrado else df_filtrado);
          df_filtrado =
            (if turno f \<noteq> [''Todos'']
             then filter (\<lambda>r. isin (map_option (\<lambda>t. get_turno (hour_of t)) (retirada r)) (turno f))
                    df_filtrado
             else df_filtrado)
      in df_filtrado)"

text \<open>
  \<open>(inicio_prox - fim_atual).total_seconds()\<close>: NaN when one of the two timestamps is
  \<open>NaT\<close>.
\<close>

definition intervalo :: "timestamp option \<Rightarrow> timestamp option \<Rightarrow> real option" where
  "intervalo inicio_prox fim_atual =
     (case (inicio_prox, fim_atual) of
        (Some a, Some b) \<Rightarrow> Some (real_of_int (a - b))
      | _ \<Rightarrow> None)"

text \<open>
  The loop over the services of one day, already sorted: the gap between each service
  and the next is kept when \<open>0 < intervalo <= 7200\<close>, which is false for NaN.
\<close>

fun intervalos :: "(timestamp option, 'a) registro_scheme list \<Rightarrow> real list" where
  "intervalos (r # s # rest) =
     (case intervalo (inicio s) (fim r) of
        Some g \<Rightarrow> if 0 < g \<and> g \<le> 7200 then g # intervalos (s # rest) else intervalos (s # rest)
      | None \<Rightarrow> intervalos (s # rest))"
| "intervalos [r] = []"
| "intervalos [] = []"

text \<open>\<open>if len(intervalos) > 1: intervalos.remove(max(intervalos))\<close>.\<close>

definition remover_maior :: "real list \<Rightarrow> real list" where
  "remover_maior xs = (if length xs > 1 then remove1 (Max (set xs)) xs else xs)"

text \<open>An entry of the list \<open>ociosidade\<close>: one collaborator on one day.\<close>

record ociosidade_dia =
  oc_colaborador :: "string option"
  oc_data :: "int option"
  tempo_ocioso :: real
  qtd_intervalos :: nat

text \<open>
  The body of the two loops for one collaborator and one day. \<open>sort_values\<close> stands for
  \<open>atend_dia.sort_values('inicio')\<close>: pandas sorts with an algorithm that may order rows
  of equal \<open>inicio\<close> in any way, so the sort is a parameter, and what is known of it is
  \<open>ordena_por_inicio\<close> below.
\<close>

definition ociosidade_do_dia ::
  "(timestamp option registro_final list \<Rightarrow> timestamp option registro_final list)
     \<Rightarrow> timestamp option registro_final list \<Rightarrow> string option \<Rightarrow> int option \<Rightarrow> ociosidade_dia list" where
  "ociosidade_do_dia sort_values df_filtrado usuario_atual data =
     (let atend_dia = filter (\<lambda>r. eq_opt (usuario r) usuario_atual \<and> eq_opt (data_retirada r) data)
                        df_filtrado
      in if length atend_dia > 0
         then (let atend_dia = sort_values atend_dia;
                   ints = intervalos atend_dia
               in if ints \<noteq> []
                  then (let ints = remover_maior ints
                        in [\<lparr>oc_colaborador = usuario_atual, oc_data = data,
                             tempo_ocioso = sum_list ints, qtd_intervalos = length ints\<rparr>])
                  else [])
         else [])"

text \<open>
  \<open>calcular_ociosidade_por_periodo\<close>: the mean, per collaborator, of the idle times of
  the days that have one; \<open>pd.DataFrame()\<close> for an empty base and when no day of any
  collaborator has an idle time.
\<close>

definition calcular_ociosidade_por_periodo ::
  "(timestamp option registro_final list \<Rightarrow> timestamp option registro_final list)
     \<Rightarrow> ('m, 'c) dados \<Rightarrow> filtros \<Rightarrow> nome_periodo \<Rightarrow> (string \<times> real) frame" where
  "calcular_ociosidade_por_periodo sort_values dados f periodo =
     (let df = linhas (base dados)
      in if df = [] then DataFrame_vazio
         else
           (let df_filtrado = filtrar_ociosidade f periodo df;
                ociosidade =
                  concat (map (\<lambda>u.
                    concat (map (\<lambda>d. ociosidade_do_dia sort_values df_filtrado u d)
                      (unique (map data_retirada
                                 (filter (\<lambda>r. eq_opt (usuario r) u) df_filtrado)))))
                    (unique (map usuario df_filtrado)))
            in if ociosidade \<noteq> []
               then Linhas (groupby_mean oc_colaborador tempo_ocioso ociosidade)
               else DataFrame_vazio))"

text \<open>
  What is known of \<open>sort_values('inicio')\<close>: the result has the same rows, in ascending
  order of \<open>inicio\<close>, the rows without \<open>inicio\<close> last.
\<close>

definition chave_inicio :: "(timestamp option, 'a) registro_scheme \<Rightarrow> nat \<times> timestamp" where
  "chave_inicio r = (case inicio r of None \<Rightarrow> (1, 0) | Some t \<Rightarrow> (0, t))"

definition ordena_por_inicio ::
  "(timestamp option registro_final list \<Rightarrow> timestamp option registro_final list) \<Rightarrow> bool" where
  "ordena_por_inicio sort_values \<longleftrightarrow>
     (\<forall>xs. (\<forall>r. count_list (sort_values xs) r = count_list xs r)
          \<and> sorted (map chave_inicio (sort_values xs)))"

text \<open>
  In the words of the specification: the services of a collaborator on a day; the gaps
  between consecutive services, each the start of the next minus the end of the
  previous; the idle time of the claim, the sum of the gaps minus the largest; and the
  amended one, over the gaps that count.
\<close>

definition servicos ::
  "timestamp option registro_final list \<Rightarrow> string \<Rightarrow> int \<Rightarrow> timestamp option registro_final list" where
  "servicos df u d = filter (\<lambda>r. usuario r = Some u \<and> data_retirada r = Some d) df"

definition lacunas :: "(timestamp option, 'a) registro_scheme list \<Rightarrow> real option list" where
  "lacunas s = map (\<lambda>(r, r'). intervalo (inicio r') (fim r)) (zip s (tl s))"

definition validas :: "real option list \<Rightarrow> real list" where
  "validas gs = filter (\<lambda>g. 0 < g \<and> g \<le> 7200) (List.map_filter id gs)"

definition ocioso_da_especificacao :: "real list \<Rightarrow> real" where
  "ocioso_da_especificacao gs = sum_list gs - Max (set gs)"

definition ocioso_emendado :: "real list \<Rightarrow> real" where
  "ocioso_emendado gs = (if length gs \<ge> 2 then sum_list gs - Max (set gs) else sum_list gs)"

text \<open>
  The days on which a collaborator has services, and the idle times of those days that
  have at least one gap that counts.
\<close>

definition dias :: "timestamp option registro_final list \<Rightarrow> string \<Rightarrow> int list" where
  "dias df u = remdups (List.map_filter data_retirada (filter (\<lambda>r. usuario r = Some u) df))"

definition ociosos ::
  "(timestamp option registro_final list \<Rightarrow> timestamp option registro_final list)
     \<Rightarrow> timestamp option registro_final list \<Rightarrow> string \<Rightarrow> real list" where
  "ociosos sort_values df u =
     map (\<lambda>d. ocioso_emendado (validas (lacunas (sort_values (servicos df u d)))))
       (filter (\<lambda>d. validas (lacunas (sort_values (servicos df u d))) \<noteq> []) (dias df u))"

section \<open>desenvolvimento\_pessoas/ociosidade: the comparison of two periods\<close>








section \<open>operacoes\_clientes/gates\_hora\<close>

text \<open>One row of \<open>metricas_hora\<close>.\<close>

record metrica_hora =
  hora :: int
  gates_ativos :: nat
  atendimentos :: nat
  media_atendimentos_gate :: pyfloat

text \<open>The grouping key \<open>df_filtrado['inicio'].dt.hour\<close>; missing for a row without \<open>inicio\<close>.\<close>

definition hora_inicio :: "(timestamp option, 'a) registro_scheme \<Rightarrow> int option" where
  "hora_inicio r = map_option hour_of (inicio r)"

text \<open>
  The rows selected by \<open>calcular_gates_hora\<close>: the day \<open>data_especifica\<close> when it is
  given, period 2 otherwise; then the client and the operation when they are given and
  not empty.
\<close>

definition filtrar_gates ::
  "filtros \<Rightarrow> string option \<Rightarrow> string option \<Rightarrow> int option
     \<Rightarrow> timestamp option registro_final list \<Rightarrow> timestamp option registro_final list" where
  "filtrar_gates f cliente_arg operacao_arg data_arg df =
     (let df_filtrado =
            (case data_arg of
               Some dia \<Rightarrow> filter (\<lambda>r. eq_col (map_option date_of (retirada r)) dia) df
             | None \<Rightarrow> filter (no_periodo (periodo2 f)) df);
          df_filtrado =
            (case cliente_arg of
               Some c \<Rightarrow> if c \<noteq> [] then filter (\<lambda>r. eq_col (CLIENTE r) c) df_filtrado
                         else df_filtrado
             | None \<Rightarrow> df_filtrado);
          df_filtrado =
            (case operacao_arg of
               Some ope \<Rightarrow> if ope \<noteq> [] then filter (\<lambda>r. eq_col (OPERACAO r) ope) df_filtrado
                           else df_filtrado
             | None \<Rightarrow> df_filtrado)
      in df_filtrado)"

text \<open>\<open>metricas_hora['hora'].map(series).fillna(0)\<close> for one hour.\<close>

definition map_fillna0 :: "(int \<times> nat) list \<Rightarrow> int \<Rightarrow> nat" where
  "map_fillna0 series h = (case map_of series h of None \<Rightarrow> 0 | Some n \<Rightarrow> n)"

text \<open>
  \<open>calcular_gates_hora\<close>, its first two results: the 24 rows of \<open>metricas_hora\<close> and the
  selected rows. (The third result, the per-gate details of each hour, is computed
  afterwards from the selected rows and does not change the first two.) Counting the
  column \<open>id\<close> raises \<open>KeyError\<close> when the table has none.
\<close>

definition calcular_gates_hora ::
  "('m, 'c) dados \<Rightarrow> filtros \<Rightarrow> string option \<Rightarrow> string option \<Rightarrow> int option
     \<Rightarrow> erro + (metrica_hora list \<times> timestamp option registro_final list)" where
  "calcular_gates_hora dados f cliente_arg operacao_arg data_arg =
     (let df = base dados;
          df_filtrado = filtrar_gates f cliente_arg operacao_arg data_arg (linhas df);
          gates_por_hora = groupby_nunique hora_inicio guiche df_filtrado
      in if \<not> tem_id df then Inl KeyError
         else
           (let atendimentos_hora = groupby_count hora_inicio id_col df_filtrado;
                metricas_hora =
                  map (\<lambda>h. \<lparr>hora = h,
                             gates_ativos = map_fillna0 gates_por_hora h,
                             atendimentos = map_fillna0 atendimentos_hora h,
                             media_atendimentos_gate =
                               fillna0 (fdiv (real (map_fillna0 atendimentos_hora h))
                                             (real (map_fillna0 gates_por_hora h)))\<rparr>)
                      [0..23]
            in Inr (metricas_hora, df_filtrado)))"

text \<open>
  In the words of the specification: the number of selected records whose service start
  falls in hour \<open>h\<close>.
\<close>

definition inicios_na_hora :: "int \<Rightarrow> timestamp option registro_final list \<Rightarrow> nat" where
  "inicios_na_hora h df = length (filter (\<lambda>r. hora_inicio r = Some h) df)"

section \<open>operacoes\_clientes/comboio\_i: the insights of mostrar\_aba\<close>

text \<open>
  The columns the insights add to the base: \<open>hora = retirada.dt.hour\<close>,
  \<open>data = retirada.dt.date\<close> and \<open>periodo_15min = retirada.dt.floor('15T')\<close>. They
  are missing for a row without \<open>retirada\<close>. The key of
  \<open>groupby(['data', 'periodo_15min'])\<close> is the pair of the last two.
\<close>

definition hora_retirada :: "(timestamp option, 'a) registro_scheme \<Rightarrow> int option" where
  "hora_retirada r = map_option hour_of (retirada r)"

definition floor_15T :: "timestamp \<Rightarrow> timestamp" where
  "floor_15T t = t - t mod 900"

definition data_periodo_15min :: "(timestamp option, 'a) registro_scheme \<Rightarrow> (int \<times> timestamp) option" where
  "data_periodo_15min r = map_option (\<lambda>t. (date_of t, floor_15T t)) (retirada r)"

text \<open>
  \<open>Series.mean()\<close> and \<open>Series.std()\<close> of a column of counts: the mean is NaN for an
  empty column; the standard deviation is the sample one (\<open>ddof = 1\<close>), NaN for a column
  of fewer than two entries.
\<close>

definition mean :: "nat list \<Rightarrow> pyfloat" where
  "mean xs = (if xs = [] then NaN else Num (real (sum_list xs) / real (length xs)))"

definition std :: "nat list \<Rightarrow> pyfloat" where
  "std xs =
     (if length xs \<le> 1 then NaN
      else (let m = real (sum_list xs) / real (length xs)
            in Num (sqrt (sum_list (map (\<lambda>x. (real x - m)\<^sup>2) xs) / real (length xs - 1)))))"

text \<open>Addition of two floats.\<close>

fun fadd :: "pyfloat \<Rightarrow> pyfloat \<Rightarrow> pyfloat" where
  "fadd (Num a) (Num b) = Num (a + b)"
| "fadd NaN y = NaN"
| "fadd x NaN = NaN"
| "fadd PosInf NegInf = NaN"
| "fadd NegInf PosInf = NaN"
| "fadd PosInf y = PosInf"
| "fadd NegInf y = NegInf"
| "fadd (Num a) y = y"

text \<open>\<open>count > x\<close> for a count and a float: false against NaN.\<close>

fun gt_float :: "nat \<Rightarrow> pyfloat \<Rightarrow> bool" where
  "gt_float q (Num v) = (real q > v)"
| "gt_float q PosInf = False"
| "gt_float q NegInf = True"
| "gt_float q NaN = False"

text \<open>
  \<open>int(x)\<close> of a float: truncation towards zero; \<open>ValueError\<close> for NaN and
  \<open>OverflowError\<close> for an infinity.
\<close>

fun py_int :: "pyfloat \<Rightarrow> erro + int" where
  "py_int (Num v) = Inr (if v \<ge> 0 then \<lfloor>v\<rfloor> else \<lceil>v\<rceil>)"
| "py_int NaN = Inl ValueError"
| "py_int PosInf = Inl OverflowError"
| "py_int NegInf = Inl OverflowError"

text \<open>\<open>Series.idxmax()\<close> of a non-empty series: the first label that carries the maximum.\<close>

fun idxmax :: "('k \<times> nat) list \<Rightarrow> 'k option" where
  "idxmax [] = None"
| "idxmax ((k, v) # xs) =
     (case idxmax xs of
        None \<Rightarrow> Some k
      | Some k' \<Rightarrow> if list_all (\<lambda>(j, w). w \<le> v) xs then Some k else Some k')"

text \<open>What the insights compute before they write anything.\<close>

record insights =
  hora_pico :: int
  horarios_criticos :: "(int \<times> nat) list"
  threshold :: int

text \<open>
  The computation of the insights in \<open>mostrar_aba\<close>, on the whole base. Counting the
  column \<open>id\<close> raises \<open>KeyError\<close> on a base without it. \<open>picos.idxmax()\<close> raises
  \<open>ValueError\<close> when no row has a \<open>retirada\<close>; the weekday averages \<open>dias_mov\<close> are
  grouped over the same rows, so \<open>dias_mov.idxmax()\<close> raises in no other case, and their
  values enter neither \<open>horarios_criticos\<close> nor \<open>threshold\<close>. The filter
  \<open>identificar_comboios\<close> compares the count of a group with itself (the mean of one
  number plus its deviation 0) and raises nothing. \<open>int\<close> raises \<open>ValueError\<close> on NaN.
  The \<open>except\<close> of \<open>mostrar_aba\<close> then shows the error instead of the insights.
\<close>

definition mostrar_aba_insights :: "tabela_base \<Rightarrow> erro + insights" where
  "mostrar_aba_insights df =
     (if \<not> tem_id df then Inl KeyError
      else
        (let picos = groupby_count hora_retirada id_col (linhas df)
         in case idxmax picos of
              None \<Rightarrow> Inl ValueError
            | Some hp \<Rightarrow>
                (let horarios =
                       filter (\<lambda>(h, q). gt_float q (fadd (mean (map snd picos)) (std (map snd picos))))
                         picos;
                     comboios_por_data = groupby_count data_periodo_15min id_col (linhas df)
                 in case py_int (fadd (mean (map snd comboios_por_data))
                                      (std (map snd comboios_por_data))) of
                      Inl e \<Rightarrow> Inl e
                    | Inr t \<Rightarrow> Inr \<lparr>hora_pico = hp, horarios_criticos = horarios, threshold = t\<rparr>)))"

text \<open>
  In the words of the specification. The keys that occur in the table; the number of
  withdrawals under a key, and the number of those with an \<open>id\<close>; the mean and the
  sample standard deviation of a list of counts as real numbers.
\<close>

definition presentes :: "('r \<Rightarrow> 'k::linorder option) \<Rightarrow> 'r list \<Rightarrow> 'k list" where
  "presentes key df = sort (remdups (List.map_filter key df))"

definition retiradas_em :: "('r \<Rightarrow> 'k option) \<Rightarrow> 'r list \<Rightarrow> 'k \<Rightarrow> nat" where
  "retiradas_em key df k = length (filter (\<lambda>r. key r = Some k) df)"

definition ids_em ::
  "((timestamp option, 'a) registro_scheme \<Rightarrow> 'k option) \<Rightarrow> (timestamp option, 'a) registro_scheme list
     \<Rightarrow> 'k \<Rightarrow> nat" where
  "ids_em key df k = length (filter (\<lambda>r. key r = Some k \<and> id_col r \<noteq> None) df)"

definition media :: "nat list \<Rightarrow> real" where
  "media xs = real (sum_list xs) / real (length xs)"

definition desvio :: "nat list \<Rightarrow> real" where
  "desvio xs = sqrt (sum_list (map (\<lambda>x. (real x - media xs)\<^sup>2) xs) / (real (length xs) - 1))"

text \<open>The counts under the keys that occur, in key order.\<close>

definition contagens :: "('r list \<Rightarrow> 'k \<Rightarrow> nat) \<Rightarrow> ('r \<Rightarrow> 'k::linorder option) \<Rightarrow> 'r list \<Rightarrow> nat list" where
  "contagens conta key df = map (conta df) (presentes key df)"

section \<open>Example tables\<close>





text \<open>Day 20199 is 2025-04-21 and day 20200 the day after.\<close>

definition final ::
  "nat option \<Rightarrow> string \<Rightarrow> string \<Rightarrow> string option \<Rightarrow> timestamp \<Rightarrow> timestamp \<Rightarrow> timestamp
     \<Rightarrow> timestamp option registro_final" where
  "final i g u c r a b = \<lparr>id_col = i, status = Some ''ATENDIDO'', guiche = Some g,
     usuario = Some u, retirada = Some r, inicio = Some a, fim = Some b,
     tpatend = Some 60, tpesper = Some 0, prefixo = Some ''AB'',
     CLIENTE = c, OPERACAO = Some ''DESCARGA'', tempo_permanencia = Some 60\<rparr>"

definition filtros_ex :: filtros where
  "filtros_ex = \<lparr>periodo1 = (20199, 20199), periodo2 = (20200, 20200), cliente = [''Todos''],
     operacao = [''Todas''], turno = [''Todos''], colaborador = None, data_especifica = None\<rparr>"

definition dados_de :: "timestamp option registro_final list \<Rightarrow> (unit, unit) dados" where
  "dados_de rows = \<lparr>base = \<lparr>tem_id = True, linhas = rows\<rparr>, medias = (), codigo = ()\<rparr>"

definition base_mov :: "timestamp option registro_final list" where
  "base_mov = [final (Some 1) ''G1'' ''ana'' (Some ''MSC'') 1745222400 1745222460 1745222520,
               final (Some 2) ''G1'' ''ana'' (Some ''ABC'') 1745222500 1745222560 1745222620,
               final (Some 3) ''G2'' ''bia'' (Some ''MSC'') 1745308800 1745308860 1745308920,
               final (Some 4) ''G2'' ''bia'' (Some ''MSC'') 1745308900 1745308960 1745309020,
               final (Some 5) ''G2'' ''bia'' None 1745308900 1745308960 1745309020]"

text \<open>The only ticket of client ABC in period 1 has no \<open>id\<close>.\<close>

definition base_sem_id :: "timestamp option registro_final list" where
  "base_sem_id = [final None ''G1'' ''ana'' (Some ''ABC'') 1745222400 1745222460 1745222520,
                  final (Some 2) ''G1'' ''ana'' (Some ''ABC'') 1745308800 1745308860 1745308920]"






text \<open>
  Tickets of 2025-04-22 (day 20200): three start in hour 8 at two gates, one of them
  without \<open>id\<close>; one starts in hour 9.
\<close>

definition base_gates :: "timestamp option registro_final list" where
  "base_gates = [final (Some 1) ''G1'' ''ana'' (Some ''MSC'') 1745308800 1745308860 1745308920,
                 final (Some 2) ''G2'' ''bia'' (Some ''MSC'') 1745308900 1745308960 1745309020,
                 final None ''G2'' ''bia'' (Some ''MSC'') 1745309000 1745309100 1745309200,
                 final (Some 4) ''G1'' ''ana'' (Some ''ABC'') 1745312400 1745312460 1745312520]"

definition metricas_gates_ex :: "metrica_hora list" where
  "metricas_gates_ex =
     map (\<lambda>h. if h = 8 then \<lparr>hora = 8, gates_ativos = 2, atendimentos = 2,
                               media_atendimentos_gate = Num 1\<rparr>
               else if h = 9 then \<lparr>hora = 9, gates_ativos = 1, atendimentos = 1,
                                    media_atendimentos_gate = Num 1\<rparr>
               else \<lparr>hora = h, gates_ativos = 0, atendimentos = 0,
                     media_atendimentos_gate = Num 0\<rparr>) [0..23]"

text \<open>A header with aliases, and the header it is renamed to.\<close>

definition cabecalho_ex :: "pystr list" where
  "cabecalho_ex =
     [cp ''id'', cp ''Status Descri'' @ [231, 227] @ cp ''o'', cp ''GUICHE'', cp '' Usuario '',
      cp ''retirada'', cp ''inicio'', cp ''fim'', cp ''tpatend'', cp ''tpesper'',
      cp ''prefixo'', cp ''Obs'']"

definition cabecalho_padrao :: "pystr list" where
  "cabecalho_padrao =
     [cp ''id'', cp ''status'', cp ''guich'' @ [234], cp ''usu'' @ [225] @ cp ''rio'',
      cp ''retirada'', cp ''inicio'', cp ''fim'', cp ''tpatend'', cp ''tpesper'',
      cp ''prefixo'', cp ''Obs'']"






text \<open>
  Withdrawals for the insights: one at 08:00, 09:00 and 10:00 and three at 11:00, all on
  day 20199. In the second base two of the three tickets of 11:00 have no \<open>id\<close>.
\<close>

definition retirada_ex :: "nat option \<Rightarrow> timestamp \<Rightarrow> timestamp option registro_final" where
  "retirada_ex i t = final i ''G1'' ''ana'' (Some ''MSC'') t t t"

definition base_comboio :: tabela_base where
  "base_comboio =
     \<lparr>tem_id = True,
      linhas = [retirada_ex (Some 1) 1745222400, retirada_ex (Some 2) 1745226000,
                retirada_ex (Some 3) 1745229600, retirada_ex (Some 4) 1745233200,
                retirada_ex (Some 5) 1745233260, retirada_ex (Some 6) 1745233320]\<rparr>"

definition base_comboio_sem_ids :: tabela_base where
  "base_comboio_sem_ids =
     \<lparr>tem_id = True,
      linhas = [retirada_ex (Some 1) 1745222400, retirada_ex (Some 2) 1745226000,
                retirada_ex (Some 3) 1745229600, retirada_ex (Some 4) 1745233200,
                retirada_ex None 1745233260, retirada_ex None 1745233320]\<rparr>"

text \<open>
  Services for the idle time. On day 20199 \<open>ana\<close> has three services with the gaps 300 s
  and 1800 s, and \<open>bia\<close> two services three hours apart; on day 20200 \<open>ana\<close> has two
  services with a gap of 100 s. The second base has only two services of \<open>ana\<close>, 100 s
  apart.
\<close>

definition servico :: "string \<Rightarrow> timestamp \<Rightarrow> timestamp \<Rightarrow> timestamp option registro_final" where
  "servico u a b = final (Some 1) ''G1'' u (Some ''MSC'') a a b"

definition base_ociosidade :: "timestamp option registro_final list" where
  "base_ociosidade =
     [servico ''ana'' 1745225400 1745226000, servico ''ana'' 1745222400 1745223000,
      servico ''bia'' 1745222400 1745222500, servico ''ana'' 1745223300 1745223600,
      servico ''ana'' 1745309000 1745309100, servico ''ana'' 1745308800 1745308900,
      servico ''bia'' 1745233300 1745233400]"

definition base_um_intervalo :: "timestamp option registro_final list" where
  "base_um_intervalo =
     [servico ''ana'' 1745222400 1745223000, servico ''ana'' 1745223100 1745223600]"

definition filtros_ociosidade :: filtros where
  "filtros_ociosidade = filtros_ex\<lparr>periodo1 := (20199, 20200)\<rparr>"

section \<open>Properties\<close>


subsection \<open>Shift buckets\<close>



subsection \<open>validar\_dados\<close>













subsection \<open>Data-frame primitives\<close>

lemma set_map_filter_key: "set (List.map_filter key df) = {k. Some k \<in> key ` set df}"
  by (auto simp: List.map_filter_def image_iff) (metis option.sel option.distinct(1))+

lemma groupby_keys: "map fst (groupby key df) = sort (remdups (List.map_filter key df))"
  by (simp add: groupby_def comp_def)

lemma distinct_groupby: "distinct (map fst (groupby key df))"
  by (simp add: groupby_keys)

lemma set_groupby:
  "set (groupby key df) = {(k, g). Some k \<in> key ` set df \<and> g = filter (\<lambda>r. key r = Some k) df}"
  by (auto simp: groupby_def set_map_filter_key)

lemma set_groupby_count:
  "set (groupby_count key col df) =
     {(k, n). Some k \<in> key ` set df
            \<and> n = length (filter (\<lambda>r. key r = Some k \<and> col r \<noteq> None) df)}"
proof -
  have "length (filter (\<lambda>r. col r \<noteq> None) (filter (\<lambda>r. key r = Some k) df))
      = length (filter (\<lambda>r. key r = Some k \<and> col r \<noteq> None) df)" for k
    by (simp add: conj_commute)
  then show ?thesis
    by (auto simp: groupby_count_def set_groupby image_iff)
qed

lemma set_groupby_nunique:
  "set (groupby_nunique key col df) =
     {(k, n). Some k \<in> key ` set df
            \<and> n = card {v. \<exists>r \<in> set df. key r = Some k \<and> col r = Some v}}"
proof -
  have "length (remdups (List.map_filter col (filter (\<lambda>r. key r = Some k) df)))
      = card {v. \<exists>r \<in> set df. key r = Some k \<and> col r = Some v}" for k
  proof -
    have "set (List.map_filter col (filter (\<lambda>r. key r = Some k) df))
        = {v. \<exists>r \<in> set df. key r = Some k \<and> col r = Some v}"
      unfolding set_map_filter_key by (auto simp: image_iff)
    then show ?thesis by (metis length_remdups_card_conv)
  qed
  then show ?thesis
    by (auto simp: groupby_nunique_def set_groupby image_iff)
qed

lemma groupby_count_pos:
  assumes "(k, n) \<in> set (groupby_count key col df)" "\<forall>r \<in> set df. col r \<noteq> None"
  shows "n \<ge> 1"
proof -
  from assms(1) obtain r where r: "r \<in> set df" "key r = Some k"
    and n: "n = length (filter (\<lambda>r. key r = Some k \<and> col r \<noteq> None) df)"
    by (auto simp: set_groupby_count image_iff)
  from r assms(2) have "filter (\<lambda>r. key r = Some k \<and> col r \<noteq> None) df \<noteq> []"
    by (auto simp: filter_empty_conv)
  with n show ?thesis by (simp add: Suc_le_eq)
qed

lemma set_merge_inner:
  "set (merge_inner left right) = {(k, a, b). (k, a) \<in> set left \<and> (k, b) \<in> set right}"
proof -
  have "(k, a, b) \<in> set (merge_inner left right) \<longleftrightarrow> (k, a) \<in> set left \<and> (k, b) \<in> set right"
    for k a b
    unfolding merge_inner_def by (force simp: image_iff)
  then show ?thesis by auto
qed

lemma fdiv_nonzero: "b \<noteq> 0 \<Longrightarrow> fdiv a b = Num (a / b)"
  by (simp add: fdiv_def)

lemma variacao_pct_nonzero: "p1 \<noteq> 0 \<Longrightarrow> variacao_pct p1 p2 = Num ((p2 - p1) / p1 * 100)"
  by (simp add: variacao_pct_def fdiv_def)

subsection \<open>Gates per hour\<close>

lemma groupby_count_keys: "map fst (groupby_count key col df) = map fst (groupby key df)"
  by (simp add: groupby_count_def comp_def case_prod_unfold)

lemma groupby_nunique_keys: "map fst (groupby_nunique key col df) = map fst (groupby key df)"
  by (simp add: groupby_nunique_def comp_def case_prod_unfold)

lemma map_fillna0_count:
  "map_fillna0 (groupby_count key col df) h
     = length (filter (\<lambda>r. key r = Some h \<and> col r \<noteq> None) df)"
proof (cases "Some h \<in> key ` set df")
  case True
  then have "(h, length (filter (\<lambda>r. key r = Some h \<and> col r \<noteq> None) df))
      \<in> set (groupby_count key col df)"
    by (simp add: set_groupby_count)
  moreover have "distinct (map fst (groupby_count key col df))"
    by (simp add: groupby_count_keys distinct_groupby)
  ultimately have "map_of (groupby_count key col df) h
      = Some (length (filter (\<lambda>r. key r = Some h \<and> col r \<noteq> None) df))"
    by (simp add: map_of_eq_Some_iff)
  then show ?thesis by (simp add: map_fillna0_def)
next
  case False
  then have "h \<notin> fst ` set (groupby_count key col df)"
    by (auto simp: set_groupby_count)
  then have "map_of (groupby_count key col df) h = None"
    by (simp add: map_of_eq_None_iff)
  moreover from False have "filter (\<lambda>r. key r = Some h \<and> col r \<noteq> None) df = []"
    by (auto simp: filter_empty_conv image_iff)
  ultimately show ?thesis by (simp add: map_fillna0_def)
qed

lemma map_fillna0_nunique:
  "map_fillna0 (groupby_nunique key col df) h
     = card {v. \<exists>r \<in> set df. key r = Some h \<and> col r = Some v}"
proof (cases "Some h \<in> key ` set df")
  case True
  then have "(h, card {v. \<exists>r \<in> set df. key r = Some h \<and> col r = Some v})
      \<in> set (groupby_nunique key col df)"
    by (simp add: set_groupby_nunique)
  moreover have "distinct (map fst (groupby_nunique key col df))"
    by (simp add: groupby_nunique_keys distinct_groupby)
  ultimately have "map_of (groupby_nunique key col df) h
      = Some (card {v. \<exists>r \<in> set df. key r = Some h \<and> col r = Some v})"
    by (simp add: map_of_eq_Some_iff)
  then show ?thesis by (simp add: map_fillna0_def)
next
  case False
  then have "h \<notin> fst ` set (groupby_nunique key col df)"
    by (auto simp: set_groupby_nunique)
  then have "map_of (groupby_nunique key col df) h = None"
    by (simp add: map_of_eq_None_iff)
  moreover from False have "{v. \<exists>r \<in> set df. key r = Some h \<and> col r = Some v} = {}"
    by (auto simp: image_iff)
  ultimately show ?thesis by (simp add: map_fillna0_def)
qed

lemma calcular_gates_hora_Inr:
  assumes "calcular_gates_hora d f c ope dia = Inr (ms, dff)"
  shows "dff = filtrar_gates f c ope dia (linhas (base d))"
    and "ms = map (\<lambda>h. \<lparr>hora = h,
             gates_ativos = card {g. \<exists>r \<in> set dff. hora_inicio r = Some h \<and> guiche r = Some g},
             atendimentos = length (filter (\<lambda>r. hora_inicio r = Some h \<and> id_col r \<noteq> None) dff),
             media_atendimentos_gate =
               fillna0 (fdiv (real (length (filter (\<lambda>r. hora_inicio r = Some h \<and> id_col r \<noteq> None) dff)))
                             (real (card {g. \<exists>r \<in> set dff. hora_inicio r = Some h \<and> guiche r = Some g})))\<rparr>)
            [0..23]"
  using assms
  by (auto simp: calcular_gates_hora_def Let_def map_fillna0_count map_fillna0_nunique
      split: if_splits)

text \<open>
  Claim C4, as amended. When \<open>calcular_gates_hora\<close> returns (the base has an \<open>id\<close>
  column), \<open>metricas_hora\<close> has one row for each hour 0..23, and for the hour \<open>h\<close> of a
  row: \<open>gates_ativos\<close> is the number of distinct gate identifiers among the selected
  records whose service start falls in hour \<open>h\<close>; \<open>atendimentos\<close> is the number of
  such records whose \<open>id\<close> is present, which is the number of such records when no
  selected record lacks its \<open>id\<close>; \<open>media_atendimentos_gate\<close> is \<open>atendimentos\<close>
  divided by \<open>gates_ativos\<close> when \<open>gates_ativos > 0\<close>, and all three are 0 for an hour
  in which no service starts.
\<close>

theorem calcular_gates_hora_metricas:
  "calcular_gates_hora d f c ope dia = Inr (ms, dff) \<longrightarrow>
     dff = filtrar_gates f c ope dia (linhas (base d))
   \<and> map hora ms = [0..23]
   \<and> (\<forall>m \<in> set ms.
         gates_ativos m = card {g. \<exists>r \<in> set dff. hora_inicio r = Some (hora m) \<and> guiche r = Some g}
       \<and> atendimentos m
           = length (filter (\<lambda>r. hora_inicio r = Some (hora m) \<and> id_col r \<noteq> None) dff)
       \<and> ((\<forall>r \<in> set dff. id_col r \<noteq> None) \<longrightarrow>
            atendimentos m = length (filter (\<lambda>r. hora_inicio r = Some (hora m)) dff))
       \<and> (gates_ativos m > 0 \<longrightarrow>
            media_atendimentos_gate m = Num (real (atendimentos m) / real (gates_ativos m)))
       \<and> ((\<forall>r \<in> set dff. hora_inicio r \<noteq> Some (hora m)) \<longrightarrow>
            gates_ativos m = 0 \<and> atendimentos m = 0 \<and> media_atendimentos_gate m = Num 0))"
proof
  assume h: "calcular_gates_hora d f c ope dia = Inr (ms, dff)"
  note a = calcular_gates_hora_Inr(1) [OF h]
  note ms = calcular_gates_hora_Inr(2) [OF h]
  have b: "map hora ms = [0..23]" unfolding ms by (simp add: comp_def)
  have c: "\<forall>m \<in> set ms.
         gates_ativos m = card {g. \<exists>r \<in> set dff. hora_inicio r = Some (hora m) \<and> guiche r = Some g}
       \<and> atendimentos m
           = length (filter (\<lambda>r. hora_inicio r = Some (hora m) \<and> id_col r \<noteq> None) dff)
       \<and> ((\<forall>r \<in> set dff. id_col r \<noteq> None) \<longrightarrow>
            atendimentos m = length (filter (\<lambda>r. hora_inicio r = Some (hora m)) dff))
       \<and> (gates_ativos m > 0 \<longrightarrow>
            media_atendimentos_gate m = Num (real (atendimentos m) / real (gates_ativos m)))
       \<and> ((\<forall>r \<in> set dff. hora_inicio r \<noteq> Some (hora m)) \<longrightarrow>
            gates_ativos m = 0 \<and> atendimentos m = 0 \<and> media_atendimentos_gate m = Num 0)"
  proof
    fix m assume "m \<in> set ms"
    then obtain k where m: "m = \<lparr>hora = k,
             gates_ativos = card {g. \<exists>r \<in> set dff. hora_inicio r = Some k \<and> guiche r = Some g},
             atendimentos = length (filter (\<lambda>r. hora_inicio r = Some k \<and> id_col r \<noteq> None) dff),
             media_atendimentos_gate =
               fillna0 (fdiv (real (length (filter (\<lambda>r. hora_inicio r = Some k \<and> id_col r \<noteq> None) dff)))
                             (real (card {g. \<exists>r \<in> set dff. hora_inicio r = Some k \<and> guiche r = Some g})))\<rparr>"
      unfolding ms by auto
    have g: "gates_ativos m = card {g. \<exists>r \<in> set dff. hora_inicio r = Some (hora m) \<and> guiche r = Some g}"
      by (simp add: m)
    have t: "atendimentos m
           = length (filter (\<lambda>r. hora_inicio r = Some (hora m) \<and> id_col r \<noteq> None) dff)"
      by (simp add: m)
    have t': "(\<forall>r \<in> set dff. id_col r \<noteq> None) \<longrightarrow>
            atendimentos m = length (filter (\<lambda>r. hora_inicio r = Some (hora m)) dff)"
    proof
      assume "\<forall>r \<in> set dff. id_col r \<noteq> None"
      then have "filter (\<lambda>r. hora_inicio r = Some (hora m) \<and> id_col r \<noteq> None) dff
          = filter (\<lambda>r. hora_inicio r = Some (hora m)) dff"
        by (auto intro: filter_cong)
      with t show "atendimentos m = length (filter (\<lambda>r. hora_inicio r = Some (hora m)) dff)"
        by simp
    qed
    have md: "media_atendimentos_gate m
        = fillna0 (fdiv (real (atendimentos m)) (real (gates_ativos m)))"
      by (simp add: m)
    have p: "gates_ativos m > 0 \<longrightarrow>
            media_atendimentos_gate m = Num (real (atendimentos m) / real (gates_ativos m))"
      unfolding md by (simp add: fdiv_def)
    have z: "(\<forall>r \<in> set dff. hora_inicio r \<noteq> Some (hora m)) \<longrightarrow>
            gates_ativos m = 0 \<and> atendimentos m = 0 \<and> media_atendimentos_gate m = Num 0"
    proof
      assume n: "\<forall>r \<in> set dff. hora_inicio r \<noteq> Some (hora m)"
      then have g0: "gates_ativos m = 0" unfolding g by simp
      from n have "filter (\<lambda>r. hora_inicio r = Some (hora m) \<and> id_col r \<noteq> None) dff = []"
        by (auto simp: filter_empty_conv)
      then have t0: "atendimentos m = 0" unfolding t by simp
      have "media_atendimentos_gate m = Num 0" unfolding md g0 t0 by (simp add: fdiv_def)
      with g0 t0 show "gates_ativos m = 0 \<and> atendimentos m = 0 \<and> media_atendimentos_gate m = Num 0"
        by simp
    qed
    show "gates_ativos m = card {g. \<exists>r \<in> set dff. hora_inicio r = Some (hora m) \<and> guiche r = Some g}
       \<and> atendimentos m
           = length (filter (\<lambda>r. hora_inicio r = Some (hora m) \<and> id_col r \<noteq> None) dff)
       \<and> ((\<forall>r \<in> set dff. id_col r \<noteq> None) \<longrightarrow>
            atendimentos m = length (filter (\<lambda>r. hora_inicio r = Some (hora m)) dff))
       \<and> (gates_ativos m > 0 \<longrightarrow>
            media_atendimentos_gate m = Num (real (atendimentos m) / real (gates_ativos m)))
       \<and> ((\<forall>r \<in> set dff. hora_inicio r \<noteq> Some (hora m)) \<longrightarrow>
            gates_ativos m = 0 \<and> atendimentos m = 0 \<and> media_atendimentos_gate m = Num 0)"
      by (rule conjI [OF g conjI [OF t conjI [OF t' conjI [OF p z]]]])
  qed
  show "dff = filtrar_gates f c ope dia (linhas (base d))
   \<and> map hora ms = [0..23]
   \<and> (\<forall>m \<in> set ms.
         gates_ativos m = card {g. \<exists>r \<in> set dff. hora_inicio r = Some (hora m) \<and> guiche r = Some g}
       \<and> atendimentos m
           = length (filter (\<lambda>r. hora_inicio r = Some (hora m) \<and> id_col r \<noteq> None) dff)
       \<and> ((\<forall>r \<in> set dff. id_col r \<noteq> None) \<longrightarrow>
            atendimentos m = length (filter (\<lambda>r. hora_inicio r = Some (hora m)) dff))
       \<and> (gates_ativos m > 0 \<longrightarrow>
            media_atendimentos_gate m = Num (real (atendimentos m) / real (gates_ativos m)))
       \<and> ((\<forall>r \<in> set dff. hora_inicio r \<noteq> Some (hora m)) \<longrightarrow>
            gates_ativos m = 0 \<and> atendimentos m = 0 \<and> media_atendimentos_gate m = Num 0))"
    by (rule conjI [OF a conjI [OF b c]])
qed

lemma gates_ex:
  "calcular_gates_hora (dados_de base_gates) filtros_ex None None None
     = Inr (metricas_gates_ex, base_gates)"
  by (simp add: calcular_gates_hora_def dados_de_def filtrar_gates_def base_gates_def
      filtros_ex_def final_def no_periodo_def date_of_def hour_of_def hora_inicio_def
      groupby_count_def groupby_nunique_def groupby_def List.map_filter_def map_fillna0_def
      metricas_gates_ex_def fdiv_def upto_rec1)

theorem calcular_gates_hora_metricas_witness:
  "calcular_gates_hora (dados_de base_gates) filtros_ex None None None
     = Inr (metricas_gates_ex, base_gates)
   \<and> map hora metricas_gates_ex = [0..23]
   \<and> metricas_gates_ex ! 9
       = \<lparr>hora = 9, gates_ativos = 1, atendimentos = 1, media_atendimentos_gate = Num 1\<rparr>"
proof -
  note h = gates_ex
  note t = mp [OF calcular_gates_hora_metricas
                   [of "dados_de base_gates" filtros_ex None None None metricas_gates_ex base_gates] h]
  have b: "map hora metricas_gates_ex = [0..23]"
    by (rule conjunct1 [OF conjunct2 [OF t]])
  have c: "metricas_gates_ex ! 9
       = \<lparr>hora = 9, gates_ativos = 1, atendimentos = 1, media_atendimentos_gate = Num 1\<rparr>"
    by (simp add: metricas_gates_ex_def upto_rec1)
  show ?thesis by (rule conjI [OF h conjI [OF b c]])
qed

text \<open>
  The claim as stated fails: three selected services start in hour 8, but one of them
  has no \<open>id\<close>, and \<open>atendimentos\<close> of hour 8 is 2.
\<close>

theorem calcular_gates_hora_contraexemplo:
  "calcular_gates_hora (dados_de base_gates) filtros_ex None None None
     = Inr (metricas_gates_ex, base_gates)
   \<and> atendimentos (metricas_gates_ex ! 8) = 2
   \<and> inicios_na_hora 8 base_gates = 3"
proof -
  have a: "atendimentos (metricas_gates_ex ! 8) = 2"
    by (simp add: metricas_gates_ex_def upto_rec1)
  have b: "inicios_na_hora 8 base_gates = 3"
    by (simp add: inicios_na_hora_def base_gates_def final_def hora_inicio_def hour_of_def)
  show ?thesis by (rule conjI [OF gates_ex conjI [OF a b]])
qed

subsection \<open>Comparison tables\<close>

lemma set_criar_mov_cliente:
  "set (criar_grafico_comparativo_mov_cliente p1 p2) =
     (\<lambda>(k, q1, q2). \<lparr>chave = k, valor_p1 = q1, valor_p2 = q2, total = q1 + q2,
                       variacao = variacao_pct (real q1) (real q2)\<rparr>) ` {(k, a, b). (k, a) \<in> set p1 \<and> (k, b) \<in> set p2}"
  by (simp add: criar_grafico_comparativo_mov_cliente_def Let_def set_merge_inner)

lemma criar_mov_cliente_linha:
  assumes "row \<in> set (criar_grafico_comparativo_mov_cliente p1 p2)"
  shows "(chave row, valor_p1 row) \<in> set p1 \<and> (chave row, valor_p2 row) \<in> set p2
         \<and> variacao row = variacao_pct (real (valor_p1 row)) (real (valor_p2 row))"
  using assms unfolding set_criar_mov_cliente by auto

lemma criar_mov_cliente_existe:
  assumes "(k, a) \<in> set p1" "(k, b) \<in> set p2"
  shows "\<exists>row \<in> set (criar_grafico_comparativo_mov_cliente p1 p2).
           chave row = k \<and> valor_p1 row = a \<and> valor_p2 row = b"
  using assms unfolding set_criar_mov_cliente by force

lemma criar_mov_cliente_chaves:
  "chave ` set (criar_grafico_comparativo_mov_cliente p1 p2) = fst ` set p1 \<inter> fst ` set p2"
proof (intro set_eqI iffI)
  fix k assume "k \<in> chave ` set (criar_grafico_comparativo_mov_cliente p1 p2)"
  then obtain row where "row \<in> set (criar_grafico_comparativo_mov_cliente p1 p2)" "k = chave row"
    by blast
  with criar_mov_cliente_linha [of row p1 p2]
  have "(k, valor_p1 row) \<in> set p1" "(k, valor_p2 row) \<in> set p2" by simp_all
  then show "k \<in> fst ` set p1 \<inter> fst ` set p2" by force
next
  fix k assume "k \<in> fst ` set p1 \<inter> fst ` set p2"
  then obtain a b where "(k, a) \<in> set p1" "(k, b) \<in> set p2" by force
  from criar_mov_cliente_existe [OF this] show "k \<in> chave ` set (criar_grafico_comparativo_mov_cliente p1 p2)"
    by force
qed

























subsection \<open>validar\_colunas\<close>

lemma lower_chaves:
  "(key, value) \<in> set mapa_colunas \<Longrightarrow> lower lo key = map lower_latin1 key"
  by (auto simp: mapa_colunas_def lower_def cp_def)

lemma lower_valores:
  "(key, value) \<in> set mapa_colunas \<Longrightarrow> lower lo value = map lower_latin1 value"
  by (auto simp: mapa_colunas_def lower_def cp_def)

lemma valores_mapa:
  "(key, value) \<in> set mapa_colunas \<Longrightarrow>
     value \<in> {cp ''status'', cp ''guich'' @ [234], cp ''usu'' @ [225] @ cp ''rio'',
               cp ''retirada'', cp ''inicio'', cp ''fim'', cp ''tpatend'', cp ''tpesper''}"
  unfolding mapa_colunas_def by auto

lemma padronizado_canonico:
  "padronizado lo (cp ''status'') = Some (cp ''status'')"
  "padronizado lo (cp ''guich'' @ [234]) = Some (cp ''guich'' @ [234])"
  "padronizado lo (cp ''usu'' @ [225] @ cp ''rio'') = Some (cp ''usu'' @ [225] @ cp ''rio'')"
  "padronizado lo (cp ''retirada'') = Some (cp ''retirada'')"
  "padronizado lo (cp ''inicio'') = Some (cp ''inicio'')"
  "padronizado lo (cp ''fim'') = Some (cp ''fim'')"
  "padronizado lo (cp ''tpatend'') = Some (cp ''tpatend'')"
  "padronizado lo (cp ''tpesper'') = Some (cp ''tpesper'')"
  by (simp_all add: padronizado_def lower_def strip_def is_space_def mapa_colunas_def cp_def
      lower_latin1_def)

lemma padronizado_valor:
  assumes "(key, value) \<in> set mapa_colunas"
  shows "padronizado lo value = Some value"
  using valores_mapa [OF assms] padronizado_canonico [of lo] by auto

lemma chaves_coerentes:
  assumes "(k, v) \<in> set mapa_colunas" "(k', v') \<in> set mapa_colunas"
    "map lower_latin1 k = map lower_latin1 k'"
  shows "v = v'"
proof -
  have "list_all (\<lambda>(k, v). list_all (\<lambda>(k', v'). map lower_latin1 k = map lower_latin1 k' \<longrightarrow> v = v')
          mapa_colunas) mapa_colunas"
    by (simp add: mapa_colunas_def cp_def lower_latin1_def)
  with assms show ?thesis by (fastforce simp: list_all_iff)
qed


lemma padronizado_Some_valor:
  assumes "padronizado lo s = Some v"
  shows "\<exists>key. (key, v) \<in> set mapa_colunas \<and> strip (lower lo s) = lower lo key"
proof -
  from assms obtain kv where f: "find (\<lambda>(key, value). strip (lower lo s) = lower lo key) mapa_colunas = Some kv"
    and v: "v = snd kv"
    by (auto simp: padronizado_def Let_def)
  from f have "kv \<in> set mapa_colunas" "strip (lower lo s) = lower lo (fst kv)"
    by (auto simp: find_Some_iff case_prod_unfold in_set_conv_nth)
  with v show ?thesis by (cases kv) auto
qed

lemma padronizado_alias:
  assumes "(key, value) \<in> set mapa_colunas" "strip (lower lo s) = lower lo key"
  shows "padronizado lo s = Some value"
proof -
  have "find (\<lambda>(key, value). strip (lower lo s) = lower lo key) mapa_colunas \<noteq> None"
    using assms by (auto simp: find_None_iff)
  then obtain v where p: "padronizado lo s = Some v"
    by (auto simp: padronizado_def Let_def)
  from padronizado_Some_valor [OF p] obtain k' where
    k': "(k', v) \<in> set mapa_colunas" "strip (lower lo s) = lower lo k'" by blast
  have "map lower_latin1 key = map lower_latin1 k'"
    using assms(2) k'(2) lower_chaves [OF assms(1), of lo] lower_chaves [OF k'(1), of lo] by simp
  from chaves_coerentes [OF assms(1) k'(1) this] p show ?thesis by simp
qed

lemma padronizado_None:
  "padronizado lo s = None \<longleftrightarrow>
     (\<forall>key value. (key, value) \<in> set mapa_colunas \<longrightarrow> strip (lower lo s) \<noteq> lower lo key)"
  by (auto simp: padronizado_def Let_def find_None_iff)

lemma padrao_idem: "padrao lo (padrao lo s) = padrao lo s"
proof (cases "padronizado lo s")
  case None
  then show ?thesis by (simp add: padrao_def)
next
  case (Some v)
  from padronizado_Some_valor [OF Some] obtain key where "(key, v) \<in> set mapa_colunas" by blast
  from padronizado_valor [OF this] Some show ?thesis by (simp add: padrao_def)
qed

lemma renomear_texto:
  "renomear lo (map Rotulo todo) (map (\<lambda>x. Rotulo (if x \<in> A then padrao lo x else x)) nomes)
     = Inr (map (\<lambda>x. Rotulo (if x \<in> A \<union> set todo then padrao lo x else x)) nomes)"
proof (induction todo arbitrary: A)
  case Nil
  then show ?case by simp
next
  case (Cons c todo)
  show ?case
  proof (cases "padronizado lo c")
    case None
    then have pc: "padrao lo c = c" by (simp add: padrao_def)
    have e: "map (\<lambda>x. Rotulo (if x \<in> A then padrao lo x else x)) nomes
        = map (\<lambda>x. Rotulo (if x \<in> insert c A then padrao lo x else x)) nomes"
      using pc by (intro map_cong) auto
    have "renomear lo (map Rotulo (c # todo)) (map (\<lambda>x. Rotulo (if x \<in> A then padrao lo x else x)) nomes)
        = renomear lo (map Rotulo todo) (map (\<lambda>x. Rotulo (if x \<in> insert c A then padrao lo x else x)) nomes)"
      using None by (simp only: list.map renomear.simps option.case e)
    also have "\<dots> = Inr (map (\<lambda>x. Rotulo (if x \<in> insert c A \<union> set todo then padrao lo x else x)) nomes)"
      by (rule Cons.IH)
    finally show ?thesis by simp
  next
    case (Some v)
    then have pc: "padrao lo c = v" by (simp add: padrao_def)
    have "rename (map (\<lambda>x. Rotulo (if x \<in> A then padrao lo x else x)) nomes) c v
        = map (\<lambda>x. Rotulo (if x \<in> insert c A then padrao lo x else x)) nomes"
    proof -
      have "(if Rotulo (if x \<in> A then padrao lo x else x) = Rotulo c then Rotulo v
             else Rotulo (if x \<in> A then padrao lo x else x))
          = Rotulo (if x \<in> insert c A then padrao lo x else x)" for x
      proof (cases "x \<in> A")
        case True
        show ?thesis
        proof (cases "padrao lo x = c")
          case True
          have "v = padrao lo (padrao lo x)" using True pc by simp
          then have "v = padrao lo x" by (simp add: padrao_idem)
          with True \<open>x \<in> A\<close> show ?thesis by simp
        next
          case False
          with \<open>x \<in> A\<close> show ?thesis by simp
        qed
      next
        case False
        with pc show ?thesis by auto
      qed
      then show ?thesis by (simp add: rename_def comp_def)
    qed
    then have "renomear lo (map Rotulo (c # todo)) (map (\<lambda>x. Rotulo (if x \<in> A then padrao lo x else x)) nomes)
        = renomear lo (map Rotulo todo) (map (\<lambda>x. Rotulo (if x \<in> insert c A then padrao lo x else x)) nomes)"
      using Some by (simp only: list.map renomear.simps option.case)
    also have "\<dots> = Inr (map (\<lambda>x. Rotulo (if x \<in> insert c A \<union> set todo then padrao lo x else x)) nomes)"
      by (rule Cons.IH)
    finally show ?thesis by simp
  qed
qed

lemma renomear_tudo_texto:
  "renomear lo (map Rotulo nomes) (map Rotulo nomes) = Inr (map Rotulo (map (padrao lo) nomes))"
proof -
  have "renomear lo (map Rotulo nomes) (map (\<lambda>x. Rotulo (if x \<in> {} then padrao lo x else x)) nomes)
     = Inr (map (\<lambda>x. Rotulo (if x \<in> {} \<union> set nomes then padrao lo x else x)) nomes)"
    by (rule renomear_texto)
  moreover have "map (\<lambda>x. Rotulo (if x \<in> {} \<union> set nomes then padrao lo x else x)) nomes
      = map Rotulo (map (padrao lo) nomes)" by simp
  ultimately show ?thesis by (simp add: comp_def)
qed

lemma renomear_outro:
  "Outro \<in> set todo \<Longrightarrow> renomear lo todo cols = Inl AttributeError"
proof (induction todo arbitrary: cols)
  case Nil
  then show ?case by simp
next
  case (Cons c todo)
  show ?case
  proof (cases c)
    case Outro
    then show ?thesis by simp
  next
    case (Rotulo s)
    with Cons.prems have "Outro \<in> set todo" by simp
    with Cons.IH Rotulo show ?thesis by (simp split: option.splits)
  qed
qed

text \<open>
  Claim C6, as amended. On a table whose column labels are all text, \<open>validar_colunas\<close>
  renames every column whose lower-cased, stripped name equals the lower-cased form of a
  key of \<open>mapa_colunas\<close> to the value of that key and leaves every other column as it
  is; it raises \<open>ValueError\<close> if and only if one of the nine required columns is absent
  after the renaming, and otherwise returns the table with the renamed labels, all
  required columns among them. On a table with a label that is not text it raises
  \<open>AttributeError\<close>, whatever its other columns are.
\<close>

theorem validar_colunas_padroniza:
  "validar_colunas lo (map Rotulo nomes) =
     (if \<exists>col \<in> set colunas_obrigatorias. col \<notin> set (map (padrao lo) nomes)
      then Inl ValueError
      else Inr (map Rotulo (map (padrao lo) nomes)))
   \<and> (\<forall>s key value. (key, value) \<in> set mapa_colunas \<and> strip (lower lo s) = lower lo key \<longrightarrow>
         padrao lo s = value)
   \<and> (\<forall>s. (\<forall>key value. (key, value) \<in> set mapa_colunas \<longrightarrow> strip (lower lo s) \<noteq> lower lo key) \<longrightarrow>
         padrao lo s = s)
   \<and> (Outro \<in> set cols \<longrightarrow> validar_colunas lo cols = Inl AttributeError)"
proof -
  have inj: "Rotulo col \<notin> set (map Rotulo xs) \<longleftrightarrow> col \<notin> set xs" for col xs
    by auto
  have a: "validar_colunas lo (map Rotulo nomes) =
     (if \<exists>col \<in> set colunas_obrigatorias. col \<notin> set (map (padrao lo) nomes)
      then Inl ValueError
      else Inr (map Rotulo (map (padrao lo) nomes)))"
    unfolding validar_colunas_def renomear_tudo_texto
    by (simp only: sum.case Let_def inj filter_empty_conv) auto
  have b: "\<forall>s key value. (key, value) \<in> set mapa_colunas \<and> strip (lower lo s) = lower lo key \<longrightarrow>
         padrao lo s = value"
    using padronizado_alias by (auto simp: padrao_def)
  have c: "\<forall>s. (\<forall>key value. (key, value) \<in> set mapa_colunas \<longrightarrow> strip (lower lo s) \<noteq> lower lo key) \<longrightarrow>
         padrao lo s = s"
  proof (intro allI impI)
    fix s assume "\<forall>key value. (key, value) \<in> set mapa_colunas \<longrightarrow> strip (lower lo s) \<noteq> lower lo key"
    then have "padronizado lo s = None" by (simp only: padronizado_None)
    then show "padrao lo s = s" by (simp add: padrao_def)
  qed
  have d: "Outro \<in> set cols \<longrightarrow> validar_colunas lo cols = Inl AttributeError"
    by (simp add: validar_colunas_def renomear_outro)
  show ?thesis by (rule conjI [OF a conjI [OF b conjI [OF c d]]])
qed

lemma padrao_cabecalho_ex: "map (padrao id) cabecalho_ex = cabecalho_padrao"
  by (simp add: cabecalho_ex_def cabecalho_padrao_def padrao_def padronizado_def lower_def
      strip_def is_space_def mapa_colunas_def cp_def lower_latin1_def)

lemma obrigatorias_cabecalho_padrao: "set colunas_obrigatorias \<subseteq> set cabecalho_padrao"
  by (simp add: colunas_obrigatorias_def cabecalho_padrao_def cp_def)

theorem validar_colunas_padroniza_witness:
  "validar_colunas id (map Rotulo cabecalho_ex) = Inr (map Rotulo cabecalho_padrao)
   \<and> padrao id (cp '' Usuario '') = cp ''usu'' @ [225] @ cp ''rio''"
proof -
  note t = validar_colunas_padroniza [of id cabecalho_ex "[]"]
  have n: "\<not> (\<exists>col \<in> set colunas_obrigatorias. col \<notin> set (map (padrao id) cabecalho_ex))"
    using obrigatorias_cabecalho_padrao unfolding padrao_cabecalho_ex by blast
  have a: "validar_colunas id (map Rotulo cabecalho_ex) = Inr (map Rotulo cabecalho_padrao)"
    using conjunct1 [OF t] n unfolding padrao_cabecalho_ex by simp
  have k: "(cp ''Usuario'', cp ''usu'' @ [225] @ cp ''rio'') \<in> set mapa_colunas
      \<and> strip (lower id (cp '' Usuario '')) = lower id (cp ''Usuario'')"
    by (simp add: mapa_colunas_def lower_def strip_def is_space_def cp_def lower_latin1_def)
  have b: "padrao id (cp '' Usuario '') = cp ''usu'' @ [225] @ cp ''rio''"
    using conjunct1 [OF conjunct2 [OF t]] k by blast
  show ?thesis by (rule conjI [OF a b])
qed

text \<open>
  The claim as stated fails on a label that is not text: a table with that label alone
  lacks every required column and raises \<open>AttributeError\<close>, not \<open>ValueError\<close>; a table
  that has all required columns and one such label is not returned.
\<close>

theorem validar_colunas_contraexemplo:
  "validar_colunas id [Outro] = Inl AttributeError
   \<and> validar_colunas id (map Rotulo cabecalho_padrao @ [Outro]) = Inl AttributeError
   \<and> set colunas_obrigatorias \<subseteq> set cabecalho_padrao"
proof -
  have a: "validar_colunas id [Outro] = Inl AttributeError"
    by (simp add: validar_colunas_def)
  have b: "validar_colunas id (map Rotulo cabecalho_padrao @ [Outro]) = Inl AttributeError"
    by (simp add: validar_colunas_def renomear_outro)
  show ?thesis by (rule conjI [OF a conjI [OF b obrigatorias_cabecalho_padrao]])
qed

subsection \<open>carregar\_dados: the join with the codes\<close>














subsection \<open>Period-over-period variation\<close>







subsection \<open>mov\_cliente: quantities and the variation\<close>

lemma calcular_mov_Inr:
  assumes "calcular_movimentacao_por_periodo d f p = Inr mov"
  shows "set mov = {(c, q). (\<exists>r \<in> set (linhas (base d)). no_periodo (filtros_periodo f p) r \<and> CLIENTE r = Some c)
                   \<and> q = length (filter (\<lambda>r. no_periodo (filtros_periodo f p) r \<and> CLIENTE r = Some c
                                              \<and> id_col r \<noteq> None) (linhas (base d)))}"
proof -
  from assms have m: "mov = groupby_count CLIENTE id_col (filter (no_periodo (filtros_periodo f p)) (linhas (base d)))"
    by (auto simp: calcular_movimentacao_por_periodo_def Let_def split: if_splits)
  have "length (filter (\<lambda>r. CLIENTE r = Some c \<and> id_col r \<noteq> None) (filter (no_periodo (filtros_periodo f p)) (linhas (base d))))
      = length (filter (\<lambda>r. no_periodo (filtros_periodo f p) r \<and> CLIENTE r = Some c
                                              \<and> id_col r \<noteq> None) (linhas (base d)))" for c
    by (simp add: conj_commute conj_left_commute)
  then show ?thesis unfolding m set_groupby_count by (auto simp: image_iff) 
qed

text \<open>
  Claim C9, as amended. When both period tables are returned (the base has an \<open>id\<close>
  column), each row of \<open>calcular_movimentacao_por_periodo\<close> belongs to a client that has a
  ticket in the period and its \<open>quantidade\<close> is the number of that client's tickets in the
  period whose \<open>id\<close> is present; the comparison keeps exactly the clients of both
  periods (inner merge) and pairs the two quantities of the same client. Hence, when no
  ticket of the base lacks its \<open>id\<close>, every \<open>quantidade\<close> is at least 1, no row of the
  comparison divides by a zero \<open>quantidade_p1\<close>, and its variation is the finite number
  \<open>(q2 - q1) / q1 * 100\<close>.
\<close>

theorem mov_cliente_sem_divisao_por_zero:
  "calcular_movimentacao_por_periodo d f Periodo1 = Inr m1
   \<and> calcular_movimentacao_por_periodo d f Periodo2 = Inr m2 \<longrightarrow>
     (\<forall>(c, q) \<in> set m1.
        (\<exists>r \<in> set (linhas (base d)). no_periodo (periodo1 f) r \<and> CLIENTE r = Some c)
        \<and> q = length (filter (\<lambda>r. no_periodo (periodo1 f) r \<and> CLIENTE r = Some c
                                   \<and> id_col r \<noteq> None) (linhas (base d))))
   \<and> (\<forall>(c, q) \<in> set m2.
        (\<exists>r \<in> set (linhas (base d)). no_periodo (periodo2 f) r \<and> CLIENTE r = Some c)
        \<and> q = length (filter (\<lambda>r. no_periodo (periodo2 f) r \<and> CLIENTE r = Some c
                                   \<and> id_col r \<noteq> None) (linhas (base d))))
   \<and> chave ` set (criar_grafico_comparativo_mov_cliente m1 m2) = fst ` set m1 \<inter> fst ` set m2
   \<and> (\<forall>row \<in> set (criar_grafico_comparativo_mov_cliente m1 m2).
         (chave row, valor_p1 row) \<in> set m1 \<and> (chave row, valor_p2 row) \<in> set m2)
   \<and> ((\<forall>r \<in> set (linhas (base d)). id_col r \<noteq> None) \<longrightarrow>
         (\<forall>(c, q) \<in> set m1. q \<ge> 1) \<and> (\<forall>(c, q) \<in> set m2. q \<ge> 1)
       \<and> (\<forall>row \<in> set (criar_grafico_comparativo_mov_cliente m1 m2).
             valor_p1 row \<noteq> 0
           \<and> variacao row = Num ((real (valor_p2 row) - real (valor_p1 row))
                                  / real (valor_p1 row) * 100)))"
proof (intro impI)
  assume h: "calcular_movimentacao_por_periodo d f Periodo1 = Inr m1
   \<and> calcular_movimentacao_por_periodo d f Periodo2 = Inr m2"
  then have h1: "calcular_movimentacao_por_periodo d f Periodo1 = Inr m1"
    and h2: "calcular_movimentacao_por_periodo d f Periodo2 = Inr m2" by simp_all
  have a: "\<forall>(c, q) \<in> set m1.
        (\<exists>r \<in> set (linhas (base d)). no_periodo (periodo1 f) r \<and> CLIENTE r = Some c)
        \<and> q = length (filter (\<lambda>r. no_periodo (periodo1 f) r \<and> CLIENTE r = Some c
                                   \<and> id_col r \<noteq> None) (linhas (base d)))"
    using calcular_mov_Inr [OF h1] by (auto simp: filtros_periodo_def)
  have b: "\<forall>(c, q) \<in> set m2.
        (\<exists>r \<in> set (linhas (base d)). no_periodo (periodo2 f) r \<and> CLIENTE r = Some c)
        \<and> q = length (filter (\<lambda>r. no_periodo (periodo2 f) r \<and> CLIENTE r = Some c
                                   \<and> id_col r \<noteq> None) (linhas (base d)))"
    using calcular_mov_Inr [OF h2] by (auto simp: filtros_periodo_def)
  note c = criar_mov_cliente_chaves [of m1 m2]
  have e: "\<forall>row \<in> set (criar_grafico_comparativo_mov_cliente m1 m2).
         (chave row, valor_p1 row) \<in> set m1 \<and> (chave row, valor_p2 row) \<in> set m2"
    using criar_mov_cliente_linha [of _ m1 m2] by blast
  have g: "(\<forall>r \<in> set (linhas (base d)). id_col r \<noteq> None) \<longrightarrow>
         (\<forall>(c, q) \<in> set m1. q \<ge> 1) \<and> (\<forall>(c, q) \<in> set m2. q \<ge> 1)
       \<and> (\<forall>row \<in> set (criar_grafico_comparativo_mov_cliente m1 m2).
             valor_p1 row \<noteq> 0
           \<and> variacao row = Num ((real (valor_p2 row) - real (valor_p1 row))
                                  / real (valor_p1 row) * 100))"
  proof
    assume ids: "\<forall>r \<in> set (linhas (base d)). id_col r \<noteq> None"
    have pos: "q \<ge> 1" if "calcular_movimentacao_por_periodo d f p = Inr m" "(c, q) \<in> set m"
      for p m c q
    proof -
      from that(1) have m: "m = groupby_count CLIENTE id_col
            (filter (no_periodo (filtros_periodo f p)) (linhas (base d)))"
        by (auto simp: calcular_movimentacao_por_periodo_def Let_def split: if_splits)
      have "\<forall>r \<in> set (filter (no_periodo (filtros_periodo f p)) (linhas (base d))). id_col r \<noteq> None"
        using ids by simp
      from groupby_count_pos [OF that(2) [unfolded m] this] show ?thesis .
    qed
    have p1: "\<forall>(c, q) \<in> set m1. q \<ge> 1" using pos [OF h1] by blast
    have p2: "\<forall>(c, q) \<in> set m2. q \<ge> 1" using pos [OF h2] by blast
    have p3: "\<forall>row \<in> set (criar_grafico_comparativo_mov_cliente m1 m2).
             valor_p1 row \<noteq> 0
           \<and> variacao row = Num ((real (valor_p2 row) - real (valor_p1 row))
                                  / real (valor_p1 row) * 100)"
    proof
      fix row assume r: "row \<in> set (criar_grafico_comparativo_mov_cliente m1 m2)"
      from criar_mov_cliente_linha [OF r]
      have m: "(chave row, valor_p1 row) \<in> set m1"
        and v: "variacao row = variacao_pct (real (valor_p1 row)) (real (valor_p2 row))"
        by simp_all
      from pos [OF h1 m] have nz: "valor_p1 row \<noteq> 0" by simp
      then have "real (valor_p1 row) \<noteq> 0" by simp
      from variacao_pct_nonzero [OF this] v nz
      show "valor_p1 row \<noteq> 0
           \<and> variacao row = Num ((real (valor_p2 row) - real (valor_p1 row))
                                  / real (valor_p1 row) * 100)" by simp
    qed
    from p1 p2 p3 show "(\<forall>(c, q) \<in> set m1. q \<ge> 1) \<and> (\<forall>(c, q) \<in> set m2. q \<ge> 1)
       \<and> (\<forall>row \<in> set (criar_grafico_comparativo_mov_cliente m1 m2).
             valor_p1 row \<noteq> 0
           \<and> variacao row = Num ((real (valor_p2 row) - real (valor_p1 row))
                                  / real (valor_p1 row) * 100))" by (intro conjI)
  qed
  show "(\<forall>(c, q) \<in> set m1.
        (\<exists>r \<in> set (linhas (base d)). no_periodo (periodo1 f) r \<and> CLIENTE r = Some c)
        \<and> q = length (filter (\<lambda>r. no_periodo (periodo1 f) r \<and> CLIENTE r = Some c
                                   \<and> id_col r \<noteq> None) (linhas (base d))))
   \<and> (\<forall>(c, q) \<in> set m2.
        (\<exists>r \<in> set (linhas (base d)). no_periodo (periodo2 f) r \<and> CLIENTE r = Some c)
        \<and> q = length (filter (\<lambda>r. no_periodo (periodo2 f) r \<and> CLIENTE r = Some c
                                   \<and> id_col r \<noteq> None) (linhas (base d))))
   \<and> chave ` set (criar_grafico_comparativo_mov_cliente m1 m2) = fst ` set m1 \<inter> fst ` set m2
   \<and> (\<forall>row \<in> set (criar_grafico_comparativo_mov_cliente m1 m2).
         (chave row, valor_p1 row) \<in> set m1 \<and> (chave row, valor_p2 row) \<in> set m2)
   \<and> ((\<forall>r \<in> set (linhas (base d)). id_col r \<noteq> None) \<longrightarrow>
         (\<forall>(c, q) \<in> set m1. q \<ge> 1) \<and> (\<forall>(c, q) \<in> set m2. q \<ge> 1)
       \<and> (\<forall>row \<in> set (criar_grafico_comparativo_mov_cliente m1 m2).
             valor_p1 row \<noteq> 0
           \<and> variacao row = Num ((real (valor_p2 row) - real (valor_p1 row))
                                  / real (valor_p1 row) * 100)))"
    by (rule conjI [OF a conjI [OF b conjI [OF c conjI [OF e g]]]])
qed

lemma mov_ex_p1:
  "calcular_movimentacao_por_periodo (dados_de base_mov) filtros_ex Periodo1
     = Inr [(''ABC'', 1), (''MSC'', 1)]"
  by (simp add: calcular_movimentacao_por_periodo_def dados_de_def base_mov_def filtros_ex_def
      final_def filtros_periodo_def no_periodo_def date_of_def groupby_count_def groupby_def
      List.map_filter_def)

lemma mov_ex_p2:
  "calcular_movimentacao_por_periodo (dados_de base_mov) filtros_ex Periodo2 = Inr [(''MSC'', 2)]"
  by (simp add: calcular_movimentacao_por_periodo_def dados_de_def base_mov_def filtros_ex_def
      final_def filtros_periodo_def no_periodo_def date_of_def groupby_count_def groupby_def
      List.map_filter_def)

theorem mov_cliente_sem_divisao_por_zero_witness:
  "calcular_movimentacao_por_periodo (dados_de base_mov) filtros_ex Periodo1
     = Inr [(''ABC'', 1), (''MSC'', 1)]
   \<and> calcular_movimentacao_por_periodo (dados_de base_mov) filtros_ex Periodo2
     = Inr [(''MSC'', 2)]
   \<and> criar_grafico_comparativo_mov_cliente [(''ABC'', 1), (''MSC'', 1)] [(''MSC'', 2)]
       = [\<lparr>chave = ''MSC'', valor_p1 = 1, valor_p2 = 2, total = 3, variacao = Num 100\<rparr>]
   \<and> chave ` set (criar_grafico_comparativo_mov_cliente [(''ABC'', 1), (''MSC'', 1)] [(''MSC'', 2)])
       = fst ` set [(''ABC'', 1::nat), (''MSC'', 1)] \<inter> fst ` set [(''MSC'', 2::nat)]"
proof -
  let ?m1 = "[(''ABC'', 1::nat), (''MSC'', 1)]"
  let ?m2 = "[(''MSC'', 2::nat)]"
  have h: "calcular_movimentacao_por_periodo (dados_de base_mov) filtros_ex Periodo1 = Inr ?m1
   \<and> calcular_movimentacao_por_periodo (dados_de base_mov) filtros_ex Periodo2 = Inr ?m2"
    by (simp only: mov_ex_p1 mov_ex_p2)
  note t = mp [OF mov_cliente_sem_divisao_por_zero [of "dados_de base_mov" filtros_ex ?m1 ?m2] h]
  have k: "chave ` set (criar_grafico_comparativo_mov_cliente ?m1 ?m2) = fst ` set ?m1 \<inter> fst ` set ?m2"
    by (rule conjunct1 [OF conjunct2 [OF conjunct2 [OF t]]])
  have c: "criar_grafico_comparativo_mov_cliente ?m1 ?m2
       = [\<lparr>chave = ''MSC'', valor_p1 = 1, valor_p2 = 2, total = 3, variacao = Num 100\<rparr>]"
    by (simp add: criar_grafico_comparativo_mov_cliente_def merge_inner_def
        variacao_pct_def fdiv_def)
  show ?thesis
    by (rule conjI [OF conjunct1 [OF h] conjI [OF conjunct2 [OF h] conjI [OF c k]]])
qed

text \<open>
  The claim as stated fails: the only ticket of client ABC in period 1 has no \<open>id\<close>, so
  the client's row has \<open>quantidade\<close> 0, and the comparison divides by it.
\<close>

theorem mov_cliente_contraexemplo:
  "calcular_movimentacao_por_periodo (dados_de base_sem_id) filtros_ex Periodo1
     = Inr [(''ABC'', 0)]
   \<and> calcular_movimentacao_por_periodo (dados_de base_sem_id) filtros_ex Periodo2
     = Inr [(''ABC'', 1)]
   \<and> criar_grafico_comparativo_mov_cliente [(''ABC'', 0)] [(''ABC'', 1)]
     = [\<lparr>chave = ''ABC'', valor_p1 = 0, valor_p2 = 1, total = 1, variacao = PosInf\<rparr>]"
proof -
  have a: "calcular_movimentacao_por_periodo (dados_de base_sem_id) filtros_ex Periodo1
     = Inr [(''ABC'', 0)]"
    by (simp add: calcular_movimentacao_por_periodo_def dados_de_def base_sem_id_def
        filtros_ex_def final_def filtros_periodo_def no_periodo_def date_of_def
        groupby_count_def groupby_def List.map_filter_def)
  have b: "calcular_movimentacao_por_periodo (dados_de base_sem_id) filtros_ex Periodo2
     = Inr [(''ABC'', 1)]"
    by (simp add: calcular_movimentacao_por_periodo_def dados_de_def base_sem_id_def
        filtros_ex_def final_def filtros_periodo_def no_periodo_def date_of_def
        groupby_count_def groupby_def List.map_filter_def)
  have c: "criar_grafico_comparativo_mov_cliente [(''ABC'', 0)] [(''ABC'', 1)]
     = [\<lparr>chave = ''ABC'', valor_p1 = 0, valor_p2 = 1, total = 1, variacao = PosInf\<rparr>]"
    by (simp add: criar_grafico_comparativo_mov_cliente_def merge_inner_def
        variacao_pct_def fdiv_def)
  show ?thesis by (rule conjI [OF a conjI [OF b c]])
qed

subsection \<open>Idleness comparison: collaborators of one period only\<close>





subsection \<open>comboio\_i: critical hours and alert threshold\<close>

lemma groupby_count_ids:
  "groupby_count key id_col df = map (\<lambda>k. (k, ids_em key df k)) (presentes key df)"
proof -
  have "length (filter (\<lambda>r. id_col r \<noteq> None) (filter (\<lambda>r. key r = Some k) df)) = ids_em key df k" for k
    by (simp add: ids_em_def conj_commute)
  then show ?thesis
    by (simp add: groupby_count_def groupby_def presentes_def comp_def)
qed

lemma snd_groupby_count_ids:
  "map snd (groupby_count key id_col df) = contagens (ids_em key) key df"
  by (simp add: groupby_count_ids contagens_def comp_def)

lemma length_contagens: "length (contagens conta key df) = length (presentes key df)"
  by (simp add: contagens_def)

lemma mean_media: "xs \<noteq> [] \<Longrightarrow> mean xs = Num (media xs)"
  by (simp add: mean_def media_def)

lemma std_desvio: "2 \<le> length xs \<Longrightarrow> std xs = Num (desvio xs)"
  by (simp add: std_def desvio_def media_def Let_def of_nat_diff)

lemma std_NaN: "length xs < 2 \<Longrightarrow> std xs = NaN"
  by (simp add: std_def)

lemma media_nonneg: "0 \<le> media xs"
  by (simp add: media_def)

lemma desvio_nonneg: "2 \<le> length xs \<Longrightarrow> 0 \<le> desvio xs"
proof -
  assume "2 \<le> length xs"
  then have "0 \<le> real (length xs) - 1" by simp
  moreover have "0 \<le> sum_list (map (\<lambda>x. (real x - media xs)\<^sup>2) xs)"
    by (rule sum_list_nonneg) auto
  ultimately show ?thesis by (simp add: desvio_def)
qed

lemma idxmax_None: "idxmax xs = None \<longleftrightarrow> xs = []"
  by (induction xs rule: idxmax.induct) (auto split: option.splits)

lemma presentes_empty:
  "presentes key df = [] \<longleftrightarrow> (\<forall>r \<in> set df. key r = None)"
proof -
  have "set (presentes key df) = {k. Some k \<in> key ` set df}"
    by (simp add: presentes_def set_map_filter_key)
  then have "presentes key df = [] \<longleftrightarrow> {k. Some k \<in> key ` set df} = {}"
    by (metis set_empty)
  also have "\<dots> \<longleftrightarrow> (\<forall>r \<in> set df. key r = None)"
    by (auto simp: image_iff) (metis option.exhaust)
  finally show ?thesis .
qed

lemma set_presentes: "k \<in> set (presentes key df) \<longleftrightarrow> (\<exists>r \<in> set df. key r = Some k)"
  by (simp add: presentes_def set_map_filter_key image_iff) metis

lemma horas_presentes:
  "presentes data_periodo_15min df \<noteq> [] \<Longrightarrow> presentes hora_retirada df \<noteq> []"
  by (auto simp: presentes_empty data_periodo_15min_def hora_retirada_def)

lemma ids_retiradas:
  "\<forall>r \<in> set df. id_col r \<noteq> None \<Longrightarrow> ids_em key df = retiradas_em key df"
proof
  fix k
  assume a: "\<forall>r \<in> set df. id_col r \<noteq> None"
  have "filter (\<lambda>r. key r = Some k \<and> id_col r \<noteq> None) df = filter (\<lambda>r. key r = Some k) df"
    by (rule filter_cong) (use a in auto)
  then show "ids_em key df k = retiradas_em key df k"
    by (simp add: ids_em_def retiradas_em_def)
qed

lemma insights_Inr:
  assumes "tem_id df" "2 \<le> length (presentes data_periodo_15min (linhas df))"
  shows "\<exists>hp. idxmax (groupby_count hora_retirada id_col (linhas df)) = Some hp \<and>
    mostrar_aba_insights df =
      Inr \<lparr>hora_pico = hp,
           horarios_criticos =
             filter (\<lambda>(h, q). gt_float q
                       (fadd (mean (contagens (ids_em hora_retirada) hora_retirada (linhas df)))
                             (std (contagens (ids_em hora_retirada) hora_retirada (linhas df)))))
               (map (\<lambda>k. (k, ids_em hora_retirada (linhas df) k)) (presentes hora_retirada (linhas df))),
           threshold = \<lfloor>media (contagens (ids_em data_periodo_15min) data_periodo_15min (linhas df))
                        + desvio (contagens (ids_em data_periodo_15min) data_periodo_15min (linhas df))\<rfloor>\<rparr>"
proof -
  let ?ws = "contagens (ids_em data_periodo_15min) data_periodo_15min (linhas df)"
  from assms(2) have n: "presentes data_periodo_15min (linhas df) \<noteq> []" by auto
  from horas_presentes [OF n]
  have "groupby_count hora_retirada id_col (linhas df) \<noteq> []"
    by (simp add: groupby_count_ids)
  then obtain hp where hp: "idxmax (groupby_count hora_retirada id_col (linhas df)) = Some hp"
    using idxmax_None [of "groupby_count hora_retirada id_col (linhas df)"] by auto
  have l: "2 \<le> length ?ws" using assms(2) by (simp add: length_contagens)
  then have ne: "?ws \<noteq> []" by auto
  have "fadd (mean ?ws) (std ?ws) = Num (media ?ws + desvio ?ws)"
    by (simp add: mean_media [OF ne] std_desvio [OF l])
  moreover have "0 \<le> media ?ws + desvio ?ws"
    using media_nonneg [of ?ws] desvio_nonneg [OF l] by linarith
  ultimately have t: "py_int (fadd (mean ?ws) (std ?ws)) = Inr \<lfloor>media ?ws + desvio ?ws\<rfloor>"
    by simp
  show ?thesis
    apply (rule exI [of _ hp])
    apply (rule conjI [OF hp])
    unfolding mostrar_aba_insights_def Let_def snd_groupby_count_ids t hp
    using assms(1) by (simp add: groupby_count_ids)
qed

lemma insights_Inl:
  assumes "\<not> (tem_id df \<and> 2 \<le> length (presentes data_periodo_15min (linhas df)))"
  shows "\<exists>e. mostrar_aba_insights df = Inl e"
proof (cases "tem_id df")
  case False
  then show ?thesis by (simp add: mostrar_aba_insights_def)
next
  case True
  let ?ws = "contagens (ids_em data_periodo_15min) data_periodo_15min (linhas df)"
  from True assms have "length ?ws < 2" by (simp add: length_contagens)
  then have "std ?ws = NaN" by (rule std_NaN)
  then have "fadd (mean ?ws) (std ?ws) = NaN" by (cases "mean ?ws") simp_all
  then have t: "py_int (fadd (mean ?ws) (std ?ws)) = Inl ValueError" by simp
  show ?thesis
    unfolding mostrar_aba_insights_def Let_def snd_groupby_count_ids t
    by (simp split: option.splits)
qed

lemma gt_float_criticos:
  "gt_float q (fadd (mean cs) (std cs)) \<longleftrightarrow> 2 \<le> length cs \<and> real q > media cs + desvio cs"
proof (cases "2 \<le> length cs")
  case True
  then have "cs \<noteq> []" by auto
  with True show ?thesis by (simp add: mean_media std_desvio)
next
  case False
  then have "std cs = NaN" by (simp add: std_NaN)
  then have "fadd (mean cs) (std cs) = NaN" by (cases "mean cs") simp_all
  with False show ?thesis by simp
qed


lemma insights_criticos:
  assumes "mostrar_aba_insights df = Inr res"
  shows "tem_id df \<and> 2 \<le> length (presentes data_periodo_15min (linhas df))"
    and "horarios_criticos res =
           filter (\<lambda>(h, q). gt_float q
                       (fadd (mean (contagens (ids_em hora_retirada) hora_retirada (linhas df)))
                             (std (contagens (ids_em hora_retirada) hora_retirada (linhas df)))))
               (map (\<lambda>k. (k, ids_em hora_retirada (linhas df) k)) (presentes hora_retirada (linhas df)))"
    and "threshold res =
           \<lfloor>media (contagens (ids_em data_periodo_15min) data_periodo_15min (linhas df))
             + desvio (contagens (ids_em data_periodo_15min) data_periodo_15min (linhas df))\<rfloor>"
proof -
  show c: "tem_id df \<and> 2 \<le> length (presentes data_periodo_15min (linhas df))"
  proof (rule ccontr)
    assume "\<not> (tem_id df \<and> 2 \<le> length (presentes data_periodo_15min (linhas df)))"
    from insights_Inl [OF this] assms show False by auto
  qed
  from insights_Inr [OF conjunct1 [OF c] conjunct2 [OF c]] assms
  show "horarios_criticos res =
           filter (\<lambda>(h, q). gt_float q
                       (fadd (mean (contagens (ids_em hora_retirada) hora_retirada (linhas df)))
                             (std (contagens (ids_em hora_retirada) hora_retirada (linhas df)))))
               (map (\<lambda>k. (k, ids_em hora_retirada (linhas df) k)) (presentes hora_retirada (linhas df)))"
    and "threshold res =
           \<lfloor>media (contagens (ids_em data_periodo_15min) data_periodo_15min (linhas df))
             + desvio (contagens (ids_em data_periodo_15min) data_periodo_15min (linhas df))\<rfloor>"
    by auto
qed

lemma distinct_presentes: "distinct (presentes key df)"
  by (simp add: presentes_def)

text \<open>
  Claim C8, as amended. The insights are computed exactly when the base has an \<open>id\<close>
  column and its withdrawals fall in at least two 15-minute windows; otherwise an
  exception is raised and nothing is reported. When they are computed, an hour of day is
  flagged as critical if and only if some ticket was withdrawn in it, at least two hours
  have withdrawals, and its count strictly exceeds the mean plus one sample standard
  deviation of the counts of the hours that have withdrawals; each flagged hour is listed
  once; and the alert threshold is the integer part of the mean plus one sample standard
  deviation of the counts of the 15-minute windows that have withdrawals. The count of an
  hour or a window is the number of its tickets that have an \<open>id\<close>; it is the number of
  its withdrawals when no ticket of the base lacks its \<open>id\<close>.
\<close>

theorem mostrar_aba_horarios_criticos:
  "((\<exists>res. mostrar_aba_insights df = Inr res) \<longleftrightarrow>
      tem_id df \<and> 2 \<le> length (presentes data_periodo_15min (linhas df)))
   \<and> (mostrar_aba_insights df = Inr res \<longrightarrow>
        (\<forall>h q. (h, q) \<in> set (horarios_criticos res) \<longleftrightarrow>
             h \<in> set (presentes hora_retirada (linhas df))
           \<and> q = ids_em hora_retirada (linhas df) h
           \<and> 2 \<le> length (presentes hora_retirada (linhas df))
           \<and> real q > media (contagens (ids_em hora_retirada) hora_retirada (linhas df))
                      + desvio (contagens (ids_em hora_retirada) hora_retirada (linhas df)))
      \<and> distinct (map fst (horarios_criticos res))
      \<and> threshold res =
           \<lfloor>media (contagens (ids_em data_periodo_15min) data_periodo_15min (linhas df))
             + desvio (contagens (ids_em data_periodo_15min) data_periodo_15min (linhas df))\<rfloor>
      \<and> ((\<forall>r \<in> set (linhas df). id_col r \<noteq> None) \<longrightarrow>
            (\<forall>h q. (h, q) \<in> set (horarios_criticos res) \<longleftrightarrow>
                 h \<in> set (presentes hora_retirada (linhas df))
               \<and> q = retiradas_em hora_retirada (linhas df) h
               \<and> 2 \<le> length (presentes hora_retirada (linhas df))
               \<and> real q > media (contagens (retiradas_em hora_retirada) hora_retirada (linhas df))
                          + desvio (contagens (retiradas_em hora_retirada) hora_retirada (linhas df)))
          \<and> threshold res =
               \<lfloor>media (contagens (retiradas_em data_periodo_15min) data_periodo_15min (linhas df))
                 + desvio (contagens (retiradas_em data_periodo_15min) data_periodo_15min (linhas df))\<rfloor>))"
proof (intro conjI impI)
  show "(\<exists>res. mostrar_aba_insights df = Inr res) \<longleftrightarrow>
      tem_id df \<and> 2 \<le> length (presentes data_periodo_15min (linhas df))"
  proof
    assume "\<exists>res. mostrar_aba_insights df = Inr res"
    then obtain r where "mostrar_aba_insights df = Inr r" ..
    then show "tem_id df \<and> 2 \<le> length (presentes data_periodo_15min (linhas df))"
      by (rule insights_criticos(1))
  next
    assume "tem_id df \<and> 2 \<le> length (presentes data_periodo_15min (linhas df))"
    then have "tem_id df" "2 \<le> length (presentes data_periodo_15min (linhas df))" by simp_all
    from insights_Inr [OF this] show "\<exists>res. mostrar_aba_insights df = Inr res" by blast
  qed
next
  assume a: "mostrar_aba_insights df = Inr res"
  note hc = insights_criticos(2) [OF a]
  note th = insights_criticos(3) [OF a]
  have l: "length (contagens (ids_em hora_retirada) hora_retirada (linhas df))
             = length (presentes hora_retirada (linhas df))"
    by (rule length_contagens)
  show m: "\<forall>h q. (h, q) \<in> set (horarios_criticos res) \<longleftrightarrow>
             h \<in> set (presentes hora_retirada (linhas df))
           \<and> q = ids_em hora_retirada (linhas df) h
           \<and> 2 \<le> length (presentes hora_retirada (linhas df))
           \<and> real q > media (contagens (ids_em hora_retirada) hora_retirada (linhas df))
                      + desvio (contagens (ids_em hora_retirada) hora_retirada (linhas df))"
    unfolding hc gt_float_criticos l by auto
  show "distinct (map fst (horarios_criticos res))"
    unfolding hc by (rule distinct_map_filter) (simp add: comp_def distinct_presentes)
  show "threshold res =
           \<lfloor>media (contagens (ids_em data_periodo_15min) data_periodo_15min (linhas df))
             + desvio (contagens (ids_em data_periodo_15min) data_periodo_15min (linhas df))\<rfloor>"
    by (rule th)
  assume i: "\<forall>r \<in> set (linhas df). id_col r \<noteq> None"
  have e1: "ids_em hora_retirada (linhas df) = retiradas_em hora_retirada (linhas df)"
    by (rule ids_retiradas [OF i])
  have e2: "ids_em data_periodo_15min (linhas df) = retiradas_em data_periodo_15min (linhas df)"
    by (rule ids_retiradas [OF i])
  have c1: "contagens (ids_em hora_retirada) hora_retirada (linhas df)
          = contagens (retiradas_em hora_retirada) hora_retirada (linhas df)"
    by (simp add: contagens_def e1)
  have c2: "contagens (ids_em data_periodo_15min) data_periodo_15min (linhas df)
          = contagens (retiradas_em data_periodo_15min) data_periodo_15min (linhas df)"
    by (simp add: contagens_def e2)
  show "\<forall>h q. (h, q) \<in> set (horarios_criticos res) \<longleftrightarrow>
                 h \<in> set (presentes hora_retirada (linhas df))
               \<and> q = retiradas_em hora_retirada (linhas df) h
               \<and> 2 \<le> length (presentes hora_retirada (linhas df))
               \<and> real q > media (contagens (retiradas_em hora_retirada) hora_retirada (linhas df))
                          + desvio (contagens (retiradas_em hora_retirada) hora_retirada (linhas df))"
    using m unfolding c1 e1 .
  show "threshold res =
               \<lfloor>media (contagens (retiradas_em data_periodo_15min) data_periodo_15min (linhas df))
                 + desvio (contagens (retiradas_em data_periodo_15min) data_periodo_15min (linhas df))\<rfloor>"
    using th unfolding c2 .
qed

lemma picos_ex:
  "groupby_count hora_retirada id_col (linhas base_comboio) = [(8, 1), (9, 1), (10, 1), (11, 3)]"
  by (simp add: base_comboio_def retirada_ex_def final_def groupby_count_def groupby_def
      List.map_filter_def hora_retirada_def hour_of_def)

lemma janelas_ex:
  "groupby_count data_periodo_15min id_col (linhas base_comboio)
     = [((20199, 1745222400), 1), ((20199, 1745226000), 1), ((20199, 1745229600), 1),
        ((20199, 1745233200), 3)]"
  by (simp add: base_comboio_def retirada_ex_def final_def groupby_count_def groupby_def
      List.map_filter_def data_periodo_15min_def date_of_def floor_15T_def)

lemma estat_ex: "fadd (mean [1, 1, 1, 3]) (std [1, 1, 1, 3]) = Num (5 / 2)"
  by (simp add: mean_def std_def Let_def power2_eq_square)

lemma insights_ex:
  "mostrar_aba_insights base_comboio
     = Inr \<lparr>hora_pico = 11, horarios_criticos = [(11, 3)], threshold = 2\<rparr>"
  unfolding mostrar_aba_insights_def Let_def picos_ex janelas_ex list.map snd_conv estat_ex
  by (simp add: base_comboio_def)

theorem mostrar_aba_horarios_criticos_witness:
  "mostrar_aba_insights base_comboio
     = Inr \<lparr>hora_pico = 11, horarios_criticos = [(11, 3)], threshold = 2\<rparr>
   \<and> retiradas_em hora_retirada (linhas base_comboio) 11 = 3
   \<and> media (contagens (retiradas_em hora_retirada) hora_retirada (linhas base_comboio))
       + desvio (contagens (retiradas_em hora_retirada) hora_retirada (linhas base_comboio)) < 3
   \<and> \<lfloor>media (contagens (retiradas_em data_periodo_15min) data_periodo_15min (linhas base_comboio))
       + desvio (contagens (retiradas_em data_periodo_15min) data_periodo_15min (linhas base_comboio))\<rfloor>
       = 2"
proof -
  define res where "res = \<lparr>hora_pico = 11, horarios_criticos = [(11, 3::nat)], threshold = 2\<rparr>"
  have a: "mostrar_aba_insights base_comboio = Inr res"
    unfolding res_def by (rule insights_ex)
  have i: "\<forall>r \<in> set (linhas base_comboio). id_col r \<noteq> None"
    by (simp add: base_comboio_def retirada_ex_def final_def)
  note t = mp [OF conjunct2 [OF mostrar_aba_horarios_criticos [where df = base_comboio and res = res]] a]
  note u = mp [OF conjunct2 [OF conjunct2 [OF conjunct2 [OF t]]] i]
  have m: "(11, 3) \<in> set (horarios_criticos res)" by (simp add: res_def)
  note v = iffD1 [OF spec [OF spec [OF conjunct1 [OF u], of 11], of 3] m]
  have q: "retiradas_em hora_retirada (linhas base_comboio) 11 = 3"
    using conjunct1 [OF conjunct2 [OF v]] by simp
  have g: "media (contagens (retiradas_em hora_retirada) hora_retirada (linhas base_comboio))
       + desvio (contagens (retiradas_em hora_retirada) hora_retirada (linhas base_comboio)) < 3"
    using conjunct2 [OF conjunct2 [OF conjunct2 [OF v]]] by simp
  have h: "\<lfloor>media (contagens (retiradas_em data_periodo_15min) data_periodo_15min (linhas base_comboio))
       + desvio (contagens (retiradas_em data_periodo_15min) data_periodo_15min (linhas base_comboio))\<rfloor>
       = 2"
    using conjunct2 [OF u] by (simp add: res_def)
  show ?thesis by (rule conjI [OF insights_ex conjI [OF q conjI [OF g h]]])
qed

text \<open>
  The claim as stated fails on a base where two of the three tickets withdrawn at 11:00
  have no \<open>id\<close>. The withdrawals per hour are 1, 1, 1 and 3, and 3 exceeds their mean
  plus one standard deviation, 2.5; the withdrawals per window are the same, so the
  threshold of the claim is 2. The code counts one \<open>id\<close> in every hour and window: it
  flags no hour and reports the threshold 1.
\<close>

theorem mostrar_aba_insights_contraexemplo:
  "mostrar_aba_insights base_comboio_sem_ids
     = Inr \<lparr>hora_pico = 8, horarios_criticos = [], threshold = 1\<rparr>
   \<and> contagens (retiradas_em hora_retirada) hora_retirada (linhas base_comboio_sem_ids)
       = [1, 1, 1, 3]
   \<and> retiradas_em hora_retirada (linhas base_comboio_sem_ids) 11 = 3
   \<and> contagens (retiradas_em data_periodo_15min) data_periodo_15min (linhas base_comboio_sem_ids)
       = [1, 1, 1, 3]
   \<and> media [1, 1, 1, 3] + desvio [1, 1, 1, 3] = 5 / 2"
proof -
  have p: "groupby_count hora_retirada id_col (linhas base_comboio_sem_ids)
             = [(8, 1), (9, 1), (10, 1), (11, 1)]"
    by (simp add: base_comboio_sem_ids_def retirada_ex_def final_def groupby_count_def groupby_def
        List.map_filter_def hora_retirada_def hour_of_def)
  have j: "groupby_count data_periodo_15min id_col (linhas base_comboio_sem_ids)
     = [((20199, 1745222400), 1), ((20199, 1745226000), 1), ((20199, 1745229600), 1),
        ((20199, 1745233200), 1)]"
    by (simp add: base_comboio_sem_ids_def retirada_ex_def final_def groupby_count_def groupby_def
        List.map_filter_def data_periodo_15min_def date_of_def floor_15T_def)
  have e: "fadd (mean [1, 1, 1, 1]) (std [1, 1, 1, 1]) = Num 1"
    by (simp add: mean_def std_def Let_def)
  have a: "mostrar_aba_insights base_comboio_sem_ids
     = Inr \<lparr>hora_pico = 8, horarios_criticos = [], threshold = 1\<rparr>"
    unfolding mostrar_aba_insights_def Let_def p j list.map snd_conv e
    by (simp add: base_comboio_sem_ids_def)
  have b: "contagens (retiradas_em hora_retirada) hora_retirada (linhas base_comboio_sem_ids)
       = [1, 1, 1, 3]"
    by (simp add: contagens_def presentes_def retiradas_em_def base_comboio_sem_ids_def
        retirada_ex_def final_def List.map_filter_def hora_retirada_def hour_of_def)
  have c: "retiradas_em hora_retirada (linhas base_comboio_sem_ids) 11 = 3"
    by (simp add: retiradas_em_def base_comboio_sem_ids_def
        retirada_ex_def final_def hora_retirada_def hour_of_def)
  have d: "contagens (retiradas_em data_periodo_15min) data_periodo_15min (linhas base_comboio_sem_ids)
       = [1, 1, 1, 3]"
    by (simp add: contagens_def presentes_def retiradas_em_def base_comboio_sem_ids_def
        retirada_ex_def final_def List.map_filter_def data_periodo_15min_def date_of_def
        floor_15T_def)
  have f: "media [1, 1, 1, 3] + desvio [1, 1, 1, 3] = 5 / 2"
    by (simp add: media_def desvio_def power2_eq_square)
  show ?thesis by (rule conjI [OF a conjI [OF b conjI [OF c conjI [OF d f]]]])
qed

end
